theory Spec2Isabelle
  imports Main "HOL-Library.Word"
begin

unbundle bit_operations_syntax

section \<open>Data model of \<^verbatim>\<open>native/vnc_server.cc\<close>\<close>

text \<open>
  Bytes (\<^verbatim>\<open>uint8_t\<close>, \<^verbatim>\<open>char\<close>) are 8-bit words. The C++ \<^verbatim>\<open>int\<close> values of the
  program (coordinates, dimensions, the client counter) are modelled as \<open>int\<close>; the
  places where the 32-bit width shows (the product in \<^verbatim>\<open>SendInput\<close>, \<^verbatim>\<open>Int32Value\<close>)
  write the two's-complement wrap out with \<open>signed_take_bit 31\<close>. The 64-bit frame
  counter is a \<open>64 word\<close>.
\<close>

type_synonym byte = "8 word"

definition bytes_of :: "string \<Rightarrow> byte list" where
  "bytes_of s = map of_char s"

definition string_of :: "byte list \<Rightarrow> string" where
  "string_of bs = map (\<lambda>b. char_of (unat b)) bs"

text \<open>
  \<^verbatim>\<open>struct Rect { int x, y, w, h; }\<close>. The fields carry the prefix \<open>rect_\<close>, since
  one-letter constants would capture the variables of every statement.
\<close>

record Rect =
  rect_x :: int
  rect_y :: int
  rect_w :: int
  rect_h :: int

text \<open>
  The fields of \<^verbatim>\<open>class VncServer\<close> that the program's logic reads and writes
  (threads, callbacks and DXGI handles are left out).
\<close>

record server =
  running :: bool
  captureRunning :: bool
  port :: int
  password :: string
  activeClients :: int
  width :: int
  height :: int
  serverFramebuffer :: "byte list"
  currentDirtyRects :: "Rect list"
  frameCounter :: "64 word"

subsection \<open>Constructor\<close>

text \<open>
  The options object as \<^verbatim>\<open>src/types.ts\<close> declares it and the constructor reads it:
  \<^verbatim>\<open>options.Has("port")\<close> is \<open>opt_port \<noteq> None\<close>. A JavaScript number is taken as an
  integer; \<^verbatim>\<open>Int32Value()\<close> reduces it to 32 bits.
\<close>

record options =
  opt_port :: "int option"
  opt_password :: "string option"

definition Int32Value :: "int \<Rightarrow> int" where
  "Int32Value n = signed_take_bit 31 n"

text \<open>
  \<^verbatim>\<open>VncServer::VncServer\<close>. The argument is \<open>None\<close> when \<^verbatim>\<open>info.Length() < 1\<close> or
  \<^verbatim>\<open>info[0]\<close> is not an object: the constructor throws the TypeError and returns.
  \<^verbatim>\<open>width\<close>, \<^verbatim>\<open>height\<close> and \<^verbatim>\<open>frameCounter\<close> have default member initialisers
  (1920, 1080, 0); the rectangle list starts empty; \<^verbatim>\<open>resize\<close> zero-fills the buffer.
\<close>

definition VncServer_new :: "options option \<Rightarrow> string + server" where
  "VncServer_new info =
     (case info of
        None \<Rightarrow> Inl ''Options expected''
      | Some opts \<Rightarrow>
          Inr \<lparr> running = False,
                captureRunning = False,
                port = (case opt_port opts of Some p \<Rightarrow> Int32Value p | None \<Rightarrow> 5900),
                password = (case opt_password opts of Some p \<Rightarrow> p | None \<Rightarrow> ''''),
                activeClients = 0,
                width = 1920,
                height = 1080,
                serverFramebuffer = replicate (1920 * 1080 * 4) 0,
                currentDirtyRects = [],
                frameCounter = 0 \<rparr>)"

subsection \<open>Input sink\<close>

text \<open>
  The fields of the Windows \<^verbatim>\<open>INPUT\<close> structure that \<^verbatim>\<open>VncServer::SendInput\<close> sets;
  \<^verbatim>\<open>INPUT input = {0}\<close> zeroes the others. The constants are those of WinUser.h.
\<close>

record INPUT =
  input_type :: nat
  mi_dx :: int
  mi_dy :: int
  mi_dwFlags :: "32 word"
  ki_wVk :: "16 word"

definition INPUT_MOUSE :: nat where "INPUT_MOUSE = 0"
definition INPUT_KEYBOARD :: nat where "INPUT_KEYBOARD = 1"
definition MOUSEEVENTF_MOVE :: "32 word" where "MOUSEEVENTF_MOVE = 0x0001"
definition MOUSEEVENTF_LEFTDOWN :: "32 word" where "MOUSEEVENTF_LEFTDOWN = 0x0002"
definition MOUSEEVENTF_LEFTUP :: "32 word" where "MOUSEEVENTF_LEFTUP = 0x0004"
definition MOUSEEVENTF_ABSOLUTE :: "32 word" where "MOUSEEVENTF_ABSOLUTE = 0x8000"

text \<open>C++ integer division truncates towards zero.\<close>

definition c_div :: "int \<Rightarrow> int \<Rightarrow> int" where
  "c_div a b = sgn a * sgn b * (\<bar>a\<bar> div \<bar>b\<bar>)"

text \<open>
  \<^verbatim>\<open>x * (65535 / this->width)\<close>: the quotient is taken first, then the product, in
  32-bit arithmetic. Division by a zero width has no defined result: \<open>None\<close>.
\<close>

definition scale_coord :: "int \<Rightarrow> int \<Rightarrow> int option" where
  "scale_coord v dim =
     (if dim = 0 then None else Some (signed_take_bit 31 (v * c_div 65535 dim)))"

text \<open>
  \<^verbatim>\<open>VncServer::SendInput(type, x, y, button, key)\<close>: the result is the \<^verbatim>\<open>INPUT\<close> handed
  to the operating system's \<^verbatim>\<open>::SendInput\<close>.
\<close>

definition SendInput :: "server \<Rightarrow> int \<Rightarrow> int \<Rightarrow> int \<Rightarrow> int \<Rightarrow> int \<Rightarrow> INPUT option" where
  "SendInput srv type xx yy button key =
     (if type = 0 then
        (case scale_coord xx (width srv) of
           None \<Rightarrow> None
         | Some dx \<Rightarrow>
            (case scale_coord yy (height srv) of
               None \<Rightarrow> None
             | Some dy \<Rightarrow>
                Some \<lparr> input_type = INPUT_MOUSE, mi_dx = dx, mi_dy = dy,
                       mi_dwFlags =
                         (let fl = MOUSEEVENTF_ABSOLUTE OR MOUSEEVENTF_MOVE in
                          if button = 1 then fl OR MOUSEEVENTF_LEFTDOWN
                          else if button = 2 then fl OR MOUSEEVENTF_LEFTUP
                          else fl),
                       ki_wVk = 0 \<rparr>))
      else
        Some \<lparr> input_type = INPUT_KEYBOARD, mi_dx = 0, mi_dy = 0, mi_dwFlags = 0,
               ki_wVk = word_of_int key \<rparr>)"

section \<open>Sockets\<close>

text \<open>
  What can happen in place of a result: a blocking \<^verbatim>\<open>recv\<close> on a socket with nothing
  to read and an open peer does not return (\<open>WouldBlock\<close>); an index outside a buffer
  and a read of a stack buffer that no \<^verbatim>\<open>recv\<close> filled have no defined result.
\<close>

datatype fault = WouldBlock | OutOfBounds | Uninitialised

text \<open>
  A connected TCP socket as the server sees it: \<open>rx\<close> holds the bytes that the peer
  has sent and the server has not read yet, \<open>tx\<close> the bytes the server has handed to
  \<^verbatim>\<open>send\<close>, in order. \<open>sock_closed\<close> records \<^verbatim>\<open>closesocket\<close>.
\<close>

record sock =
  rx :: "byte list"
  peer_closed :: bool
  tx :: "byte list"
  sock_closed :: bool

text \<open>\<^verbatim>\<open>send(s, data, len, 0)\<close>; the program never looks at its result.\<close>

definition send :: "sock \<Rightarrow> byte list \<Rightarrow> sock" where
  "send s bs = s\<lparr>tx := tx s @ bs\<rparr>"

text \<open>
  \<^verbatim>\<open>recv(s, buf, n, 0)\<close> on a blocking socket: with bytes to read it returns at once
  with at most \<open>n\<close> of them; with none it returns 0 if the peer has closed and
  otherwise waits.
\<close>

definition recv :: "sock \<Rightarrow> nat \<Rightarrow> fault + (byte list \<times> sock)" where
  "recv s n =
     (if rx s = [] then (if peer_closed s then Inr ([], s) else Inl WouldBlock)
      else Inr (take n (rx s), s\<lparr>rx := drop n (rx s)\<rparr>))"

definition closesocket :: "sock \<Rightarrow> sock" where
  "closesocket s = s\<lparr>sock_closed := True\<rparr>"

section \<open>WebSocket upgrade\<close>

text \<open>\<^verbatim>\<open>std::string::find(pat, pos)\<close>: the first index at or after \<open>pos\<close> where \<open>pat\<close> starts.\<close>

fun find_at :: "'a list \<Rightarrow> 'a list \<Rightarrow> nat \<Rightarrow> nat option" where
  "find_at pat [] i = (if pat = [] then Some i else None)"
| "find_at pat (c # cs) i =
     (if take (length pat) (c # cs) = pat then Some i else find_at pat cs (Suc i))"

definition str_find :: "'a list \<Rightarrow> 'a list \<Rightarrow> nat \<Rightarrow> nat option" where
  "str_find s pat pos = (if length s < pos then None else find_at pat (drop pos s) pos)"

text \<open>
  \<^verbatim>\<open>ComputeSHA1Base64\<close> appends the WebSocket GUID and hands the string to the Windows
  CryptoAPI; \<open>crypt\<close> stands for that library's SHA-1 followed by Base64.
\<close>

definition ComputeSHA1Base64 :: "(string \<Rightarrow> string) \<Rightarrow> string \<Rightarrow> string" where
  "ComputeSHA1Base64 crypt input = crypt (input @ ''258EAFA5-E914-47DA-95CA-C5AB0DC85B11'')"

definition CRLF :: string where
  "CRLF = [CHR 0x0D, CHR 0x0A]"

text \<open>
  \<^verbatim>\<open>VncServer::HandshakeWebSocket\<close>. The request is the received bytes up to the first
  zero byte (\<^verbatim>\<open>std::string req(buf)\<close>); when no line end follows the key header,
  \<^verbatim>\<open>substr\<close> runs to the end of the request.
\<close>

definition HandshakeWebSocket :: "(string \<Rightarrow> string) \<Rightarrow> sock \<Rightarrow> fault + (bool \<times> sock)" where
  "HandshakeWebSocket crypt s =
     (case recv s 4095 of
        Inl e \<Rightarrow> Inl e
      | Inr (buf, s1) \<Rightarrow>
          if length buf \<le> 0 then Inr (False, s1)
          else
            let req = string_of (takeWhile (\<lambda>b. b \<noteq> 0) buf);
                keyHeader = ''Sec-WebSocket-Key: ''
            in (case str_find req keyHeader 0 of
                  None \<Rightarrow> Inr (False, s1)
                | Some pos \<Rightarrow>
                    let start = pos + length keyHeader;
                        key = (case str_find req CRLF pos of
                                 None \<Rightarrow> drop start req
                               | Some stop \<Rightarrow> take (stop - start) (drop start req));
                        acceptKey = ComputeSHA1Base64 crypt key;
                        resp = ''HTTP/1.1 101 Switching Protocols'' @ CRLF
                             @ ''Upgrade: websocket'' @ CRLF
                             @ ''Connection: Upgrade'' @ CRLF
                             @ ''Sec-WebSocket-Accept: '' @ acceptKey @ CRLF @ CRLF
                    in Inr (True, send s1 (bytes_of resp))))"

section \<open>RFB handshake\<close>

text \<open>\<^verbatim>\<open>(v >> 8) & 0xFF\<close> and \<^verbatim>\<open>v & 0xFF\<close>, stored into a byte.\<close>

definition hi_byte :: "int \<Rightarrow> byte" where
  "hi_byte v = word_of_int (drop_bit 8 v AND 0xFF)"

definition lo_byte :: "int \<Rightarrow> byte" where
  "lo_byte v = word_of_int (v AND 0xFF)"

text \<open>
  The \<^verbatim>\<open>initMsg\<close> vector of \<^verbatim>\<open>HandshakeRFB\<close>: \<^verbatim>\<open>resize\<close> zero-fills it, bytes 17 to 19
  are never written, \<^verbatim>\<open>nameLen\<close> is the 32-bit length of the name.
\<close>

definition ServerInit :: "int \<Rightarrow> int \<Rightarrow> string \<Rightarrow> byte list" where
  "ServerInit wd ht name =
     (let nameLen = (word_of_nat (length name) :: 32 word) in
      [hi_byte wd, lo_byte wd, hi_byte ht, lo_byte ht,
       32, 24, 0, 1,
       0, 255, 0, 255, 0, 255,
       16, 8, 0,
       0, 0, 0,
       ucast (drop_bit 24 nameLen AND 0xFF), ucast (drop_bit 16 nameLen AND 0xFF),
       ucast (drop_bit 8 nameLen AND 0xFF), ucast (nameLen AND 0xFF)]
      @ bytes_of name)"

definition RFB_version :: "byte list" where
  "RFB_version = bytes_of (''RFB 003.008'' @ [CHR 0x0A])"

text \<open>
  \<^verbatim>\<open>VncServer::HandshakeRFB\<close>: version out, at most 12 bytes in, security list out,
  at most one byte in, \<^verbatim>\<open>ServerInit\<close> out. What is read is never inspected, and the
  function returns \<^verbatim>\<open>true\<close> on every path.
\<close>

definition HandshakeRFB :: "sock \<Rightarrow> int \<Rightarrow> int \<Rightarrow> string \<Rightarrow> fault + (bool \<times> sock)" where
  "HandshakeRFB s wd ht name =
     (case recv (send s RFB_version) 12 of
        Inl e \<Rightarrow> Inl e
      | Inr (buf, s1) \<Rightarrow>
          (case recv (send s1 [1, 1]) 1 of
             Inl e \<Rightarrow> Inl e
           | Inr (buf', s2) \<Rightarrow> Inr (True, send s2 (ServerInit wd ht name))))"

text \<open>
  The same function cut at its two blocking reads, for a handler that waits in one of
  them with the bytes before it already sent: the part from the first \<^verbatim>\<open>recv\<close> to the
  security list, and the part from the second \<^verbatim>\<open>recv\<close> to the end.
\<close>

definition HandshakeRFB_recv_version :: "sock \<Rightarrow> fault + sock" where
  "HandshakeRFB_recv_version s =
     (case recv s 12 of
        Inl e \<Rightarrow> Inl e
      | Inr (buf, s1) \<Rightarrow> Inr (send s1 [1, 1]))"

definition HandshakeRFB_recv_init ::
    "sock \<Rightarrow> int \<Rightarrow> int \<Rightarrow> string \<Rightarrow> fault + (bool \<times> sock)" where
  "HandshakeRFB_recv_init s wd ht name =
     (case recv s 1 of
        Inl e \<Rightarrow> Inl e
      | Inr (buf', s2) \<Rightarrow> Inr (True, send s2 (ServerInit wd ht name)))"

section \<open>Framebuffer updates\<close>

text \<open>
  One row of a rectangle: \<^verbatim>\<open>send(s, &fb[srcIdx], r.w * 4, 0)\<close> with
  \<^verbatim>\<open>srcIdx = ((r.y + y) * fbW + r.x) * 4\<close>. A length that is not positive sends
  nothing; a row that leaves the buffer is an out-of-bounds read.
\<close>

definition row_bytes :: "Rect \<Rightarrow> byte list \<Rightarrow> int \<Rightarrow> int \<Rightarrow> fault + byte list" where
  "row_bytes r fb fbW yy =
     (let srcIdx = ((rect_y r + yy) * fbW + rect_x r) * 4; n = rect_w r * 4 in
      if n \<le> 0 then Inr []
      else if 0 \<le> srcIdx \<and> srcIdx + n \<le> int (length fb)
        then Inr (take (nat n) (drop (nat srcIdx) fb))
      else Inl OutOfBounds)"

fun send_rows :: "sock \<Rightarrow> Rect \<Rightarrow> byte list \<Rightarrow> int \<Rightarrow> int list \<Rightarrow> fault + sock" where
  "send_rows s r fb fbW [] = Inr s"
| "send_rows s r fb fbW (yy # ys) =
     (case row_bytes r fb fbW yy of
        Inl e \<Rightarrow> Inl e
      | Inr bs \<Rightarrow> send_rows (send s bs) r fb fbW ys)"

text \<open>The 12-byte rectangle header \<^verbatim>\<open>rh\<close>; the encoding is 0 (Raw).\<close>

definition rect_header :: "Rect \<Rightarrow> byte list" where
  "rect_header r =
     [hi_byte (rect_x r), lo_byte (rect_x r), hi_byte (rect_y r), lo_byte (rect_y r),
      hi_byte (rect_w r), lo_byte (rect_w r), hi_byte (rect_h r), lo_byte (rect_h r),
      0, 0, 0, 0]"

fun send_rects :: "sock \<Rightarrow> Rect list \<Rightarrow> byte list \<Rightarrow> int \<Rightarrow> fault + sock" where
  "send_rects s [] fb fbW = Inr s"
| "send_rects s (r # rs) fb fbW =
     (case send_rows (send s (rect_header r)) r fb fbW (map int [0 ..< nat (rect_h r)]) of
        Inl e \<Rightarrow> Inl e
      | Inr s' \<Rightarrow> send_rects s' rs fb fbW)"

text \<open>The 4-byte message header; \<^verbatim>\<open>count\<close> is the 16-bit number of rectangles.\<close>

definition update_header :: "Rect list \<Rightarrow> byte list" where
  "update_header rects =
     (let count = (word_of_nat (length rects) :: 16 word) in
      [0, 0, ucast (drop_bit 8 count AND 0xFF), ucast (count AND 0xFF)])"

text \<open>\<^verbatim>\<open>VncServer::SendFrameUpdate\<close>; \<^verbatim>\<open>fbH\<close> is not used by the body.\<close>

definition SendFrameUpdate ::
    "sock \<Rightarrow> Rect list \<Rightarrow> byte list \<Rightarrow> int \<Rightarrow> int \<Rightarrow> fault + sock" where
  "SendFrameUpdate s rects fb fbW fbH =
     (if rects = [] then Inr s
      else send_rects (send s (update_header rects)) rects fb fbW)"

section \<open>Capture\<close>

text \<open>
  What the desktop duplication interface hands to \<^verbatim>\<open>AcquireFrame\<close>: the size of the
  frame's metadata, whether \<^verbatim>\<open>GetFrameDirtyRects\<close> succeeded, the Windows \<^verbatim>\<open>RECT\<close>s
  that the source then reads from the metadata buffer, and the bytes of the mapped
  staging texture (\<open>None\<close> when \<^verbatim>\<open>Map\<close> fails). \<open>dirty\<close> is the list
  \<^verbatim>\<open>rects[0]\<close> to \<^verbatim>\<open>rects[dirtyCount - 1]\<close> of the source's loop, whatever the interface
  means by the number it stores in \<^verbatim>\<open>dirtyCount\<close>. The texture is in the duplication
  interface's byte order, B, G, R, A.
\<close>

record RECT =
  rc_left :: int
  rc_top :: int
  rc_right :: int
  rc_bottom :: int

record dxgi_frame =
  TotalMetadataBufferSize :: nat
  dirty_hr_ok :: bool
  dirty :: "RECT list"
  mapped :: "byte list option"

text \<open>
  \<^verbatim>\<open>VncServer::InitializeDXGI\<close>, as far as the server's own state goes: the dimensions
  of the display mode are stored and the framebuffer is resized to them.
\<close>

definition resize :: "byte list \<Rightarrow> nat \<Rightarrow> byte list" where
  "resize v n = take n v @ replicate (n - length v) 0"

definition InitializeDXGI :: "server \<Rightarrow> int \<Rightarrow> int \<Rightarrow> server" where
  "InitializeDXGI srv mode_w mode_h =
     srv\<lparr>width := mode_w, height := mode_h,
         serverFramebuffer := resize (serverFramebuffer srv) (nat (mode_w * mode_h * 4))\<rparr>"

text \<open>The body of the conversion loop for pixel \<open>i\<close>.\<close>

definition convert_pixel :: "byte list \<Rightarrow> nat \<Rightarrow> byte list \<Rightarrow> byte list" where
  "convert_pixel src i dst =
     dst[i * 4 + 0 := src ! (i * 4 + 2),
         i * 4 + 1 := src ! (i * 4 + 1),
         i * 4 + 2 := src ! (i * 4 + 0),
         i * 4 + 3 := 255]"

definition convert_pixels :: "byte list \<Rightarrow> byte list \<Rightarrow> nat \<Rightarrow> byte list" where
  "convert_pixels src dst n = fold (convert_pixel src) [0 ..< n] dst"

definition rect_of_RECT :: "RECT \<Rightarrow> Rect" where
  "rect_of_RECT rc =
     \<lparr> rect_x = rc_left rc, rect_y = rc_top rc,
       rect_w = rc_right rc - rc_left rc, rect_h = rc_bottom rc - rc_top rc \<rparr>"

definition full_rect :: "server \<Rightarrow> Rect" where
  "full_rect srv = \<lparr> rect_x = 0, rect_y = 0, rect_w = width srv, rect_h = height srv \<rparr>"

text \<open>
  \<^verbatim>\<open>VncServer::AcquireFrame\<close>. The frame is \<open>None\<close> when there is no duplication
  object or \<^verbatim>\<open>AcquireNextFrame\<close> fails (a timeout included). The result is the
  returned flag, the \<^verbatim>\<open>dirtyRects\<close> out-parameter and the server with its framebuffer
  overwritten. The loop runs over \<open>width * height\<close> pixels whatever the sizes of the
  two buffers are.
\<close>

definition AcquireFrame ::
    "server \<Rightarrow> dxgi_frame option \<Rightarrow> Rect list \<Rightarrow> fault + (bool \<times> Rect list \<times> server)" where
  "AcquireFrame srv frame dirtyRects =
     (case frame of
        None \<Rightarrow> Inr (False, dirtyRects, srv)
      | Some f \<Rightarrow>
          let rects1 =
                (if 0 < TotalMetadataBufferSize f \<and> dirty_hr_ok f \<and> 0 < length (dirty f)
                 then dirtyRects @ map rect_of_RECT (dirty f) else dirtyRects);
              rects2 = (if rects1 = [] then rects1 @ [full_rect srv] else rects1)
          in (case mapped f of
                None \<Rightarrow> Inr (True, rects2, srv)
              | Some src \<Rightarrow>
                  let n = nat (width srv * height srv) in
                  if n * 4 \<le> length src \<and> n * 4 \<le> length (serverFramebuffer srv)
                  then Inr (True, rects2,
                            srv\<lparr>serverFramebuffer :=
                                  convert_pixels src (serverFramebuffer srv) n\<rparr>)
                  else Inl OutOfBounds))"

text \<open>
  One pass through the body of the \<^verbatim>\<open>while\<close> loop of \<^verbatim>\<open>VncServer::CaptureLoop\<close>; the
  commit of the rectangle list and of the counter happens under the framebuffer mutex.
\<close>

definition CaptureLoop_iter :: "server \<Rightarrow> dxgi_frame option \<Rightarrow> fault + server" where
  "CaptureLoop_iter srv frame =
     (if \<not> (running srv \<and> captureRunning srv) then Inr srv
      else if activeClients srv = 0 then Inr srv
      else
        (case AcquireFrame srv frame [] of
           Inl e \<Rightarrow> Inl e
         | Inr (ok, dirtyRects, srv1) \<Rightarrow>
             if ok then
               Inr (srv1\<lparr>currentDirtyRects :=
                           (if dirtyRects = [] then dirtyRects @ [full_rect srv1]
                            else dirtyRects),
                         frameCounter := frameCounter srv1 + 1\<rparr>)
             else Inr srv1))"

section \<open>Client sessions\<close>

text \<open>
  The state of one \<^verbatim>\<open>ClientHandler\<close>: its socket, the locals \<^verbatim>\<open>lastFrameSeen\<close> and
  \<^verbatim>\<open>updateRequested\<close> of the main loop, and the list of \<^verbatim>\<open>INPUT\<close>s the handler has
  posted through \<^verbatim>\<open>SendInput\<close>.
\<close>

record session =
  sock :: sock
  lastFrameSeen :: "64 word"
  updateRequested :: bool
  posted :: "INPUT list"

text \<open>A \<^verbatim>\<open>recv\<close> into a local buffer that is not looked at afterwards.\<close>

definition recv_discard :: "session \<Rightarrow> sock \<Rightarrow> nat \<Rightarrow> fault + (bool \<times> session)" where
  "recv_discard ss s n =
     (case recv s n of Inl e \<Rightarrow> Inl e | Inr (buf, s') \<Rightarrow> Inr (True, ss\<lparr>sock := s'\<rparr>))"

text \<open>
  \<^verbatim>\<open>uint16_t numEncodings = (buf[1] << 8) | buf[2]\<close> on \<^verbatim>\<open>char buf[3]\<close>: each
  \<^verbatim>\<open>char\<close> is sign-extended to \<^verbatim>\<open>int\<close> before the shift and the bitwise or.
\<close>

definition numEncodings_of :: "byte list \<Rightarrow> 16 word" where
  "numEncodings_of buf = word_of_int (push_bit 8 (sint (buf ! 1)) OR sint (buf ! 2))"

text \<open>
  The \<^verbatim>\<open>if (bytesAvailable > 0)\<close> block of the main loop: one type byte and the
  \<^verbatim>\<open>switch\<close> on it. The flag is \<open>False\<close> for \<^verbatim>\<open>break\<close> out of the loop. The cases for
  key and pointer events read the body and do nothing else.
\<close>

definition read_message :: "session \<Rightarrow> fault + (bool \<times> session)" where
  "read_message ss =
     (case recv (sock ss) 1 of
        Inl e \<Rightarrow> Inl e
      | Inr (d, s1) \<Rightarrow>
          if length d \<le> 0 then Inr (False, ss\<lparr>sock := s1\<rparr>)
          else
            let msgType = hd d in
            if msgType = 0 then recv_discard ss s1 19
            else if msgType = 2 then
              (case recv s1 3 of
                 Inl e \<Rightarrow> Inl e
               | Inr (buf, s2) \<Rightarrow>
                   if length buf < 3 then Inl Uninitialised
                   else recv_discard ss s2 (unat (numEncodings_of buf) * 4))
            else if msgType = 3 then
              (case recv_discard ss s1 9 of
                 Inl e \<Rightarrow> Inl e
               | Inr (c, ss') \<Rightarrow> Inr (c, ss'\<lparr>updateRequested := True\<rparr>))
            else if msgType = 4 then recv_discard ss s1 7
            else if msgType = 5 then recv_discard ss s1 5
            else recv_discard ss s1 1024)"

text \<open>
  The \<^verbatim>\<open>switch\<close> of the main loop once more, on its own: what the handler does from
  the point where the type byte has been read. It is the part of a pass in which the
  handler can wait in \<^verbatim>\<open>recv\<close>.
\<close>

definition switch_msgType :: "session \<Rightarrow> byte \<Rightarrow> fault + (bool \<times> session)" where
  "switch_msgType ss msgType =
     (if msgType = 0 then recv_discard ss (sock ss) 19
      else if msgType = 2 then
        (case recv (sock ss) 3 of
           Inl e \<Rightarrow> Inl e
         | Inr (buf, s2) \<Rightarrow>
             if length buf < 3 then Inl Uninitialised
             else recv_discard ss s2 (unat (numEncodings_of buf) * 4))
      else if msgType = 3 then
        (case recv_discard ss (sock ss) 9 of
           Inl e \<Rightarrow> Inl e
         | Inr (c, ss') \<Rightarrow> Inr (c, ss'\<lparr>updateRequested := True\<rparr>))
      else if msgType = 4 then recv_discard ss (sock ss) 7
      else if msgType = 5 then recv_discard ss (sock ss) 5
      else recv_discard ss (sock ss) 1024)"

text \<open>The block under the framebuffer mutex at the end of the loop body.\<close>

definition emit_update :: "server \<Rightarrow> session \<Rightarrow> fault + session" where
  "emit_update srv ss =
     (if updateRequested ss \<and> lastFrameSeen ss < frameCounter srv then
        (case SendFrameUpdate (sock ss) (currentDirtyRects srv) (serverFramebuffer srv)
                (width srv) (height srv) of
           Inl e \<Rightarrow> Inl e
         | Inr s' \<Rightarrow>
             Inr (ss\<lparr>sock := s', lastFrameSeen := frameCounter srv,
                     updateRequested := False\<rparr>))
      else Inr ss)"

text \<open>
  One pass through the body of \<^verbatim>\<open>while (this->running)\<close> in \<^verbatim>\<open>ClientHandler\<close>;
  \<^verbatim>\<open>bytesAvailable\<close> is the number of bytes waiting on the socket.
\<close>

definition client_iter :: "server \<Rightarrow> session \<Rightarrow> fault + (bool \<times> session)" where
  "client_iter srv ss =
     (case (if 0 < length (rx (sock ss)) then read_message ss else Inr (True, ss)) of
        Inl e \<Rightarrow> Inl e
      | Inr (cont, ss1) \<Rightarrow>
          if \<not> cont then Inr (False, ss1)
          else (case emit_update srv ss1 of
                  Inl e \<Rightarrow> Inl e
                | Inr ss2 \<Rightarrow> Inr (True, ss2)))"

section \<open>Session workers and the client counter\<close>

text \<open>
  Where a \<^verbatim>\<open>ClientHandler\<close> thread stands: created and not yet run; at the \<^verbatim>\<open>recv\<close> of
  the WebSocket handshake; at the call of \<^verbatim>\<open>HandshakeRFB\<close>; inside \<^verbatim>\<open>HandshakeRFB\<close> at
  its first and at its second \<^verbatim>\<open>recv\<close> (with the width and height the call was given);
  at the top of the main loop; inside a pass of the main loop at the first \<^verbatim>\<open>recv\<close>
  after the type byte, and at the second \<^verbatim>\<open>recv\<close> of SetEncodings (with the number of
  encodings); returned.
\<close>

datatype phase =
    Spawned
  | WsHandshake
  | RfbHandshake
  | RfbClientVersion int int
  | RfbClientInit int int
  | Streaming
  | InSwitch byte
  | InEncodings nat
  | Exited

record worker =
  w_phase :: phase
  w_session :: session

text \<open>\<^verbatim>\<open>closesocket(clientSocket); this->activeClients--;\<close> and the return.\<close>

definition leave :: "server \<Rightarrow> session \<Rightarrow> server \<times> worker" where
  "leave srv ss =
     (srv\<lparr>activeClients := activeClients srv - 1\<rparr>,
      \<lparr> w_phase = Exited, w_session = ss\<lparr>sock := closesocket (sock ss)\<rparr> \<rparr>)"

text \<open>
  The end of a pass of the main loop: after \<^verbatim>\<open>break\<close> the handler leaves; otherwise
  the update block runs and the handler is back at the top of the loop.
\<close>

definition end_pass :: "server \<Rightarrow> bool \<Rightarrow> session \<Rightarrow> fault + (server \<times> worker)" where
  "end_pass srv cont ss =
     (if \<not> cont then Inr (leave srv ss)
      else (case emit_update srv ss of
              Inl e \<Rightarrow> Inl e
            | Inr ss' \<Rightarrow> Inr (srv, \<lparr> w_phase = Streaming, w_session = ss' \<rparr>)))"

text \<open>
  A handler inside the second \<^verbatim>\<open>recv\<close> of SetEncodings, and a handler inside the first
  \<^verbatim>\<open>recv\<close> after the type byte. A \<^verbatim>\<open>recv\<close> that finds nothing leaves the handler
  where it is, with what it has read and sent so far; one that returns lets the pass
  run on to its end.
\<close>

definition encodings_step :: "server \<Rightarrow> session \<Rightarrow> nat \<Rightarrow> fault + (server \<times> worker)" where
  "encodings_step srv ss n =
     (case recv_discard ss (sock ss) (n * 4) of
        Inl e \<Rightarrow>
          if e = WouldBlock then Inr (srv, \<lparr> w_phase = InEncodings n, w_session = ss \<rparr>)
          else Inl e
      | Inr (c, ss') \<Rightarrow> end_pass srv c ss')"

definition switch_step :: "server \<Rightarrow> session \<Rightarrow> byte \<Rightarrow> fault + (server \<times> worker)" where
  "switch_step srv ss msgType =
     (if msgType = 2 then
        (case recv (sock ss) 3 of
           Inl e \<Rightarrow>
             if e = WouldBlock then Inr (srv, \<lparr> w_phase = InSwitch msgType, w_session = ss \<rparr>)
             else Inl e
         | Inr (buf, s2) \<Rightarrow>
             if length buf < 3 then Inl Uninitialised
             else encodings_step srv (ss\<lparr>sock := s2\<rparr>) (unat (numEncodings_of buf)))
      else
        (case switch_msgType ss msgType of
           Inl e \<Rightarrow>
             if e = WouldBlock then Inr (srv, \<lparr> w_phase = InSwitch msgType, w_session = ss \<rparr>)
             else Inl e
         | Inr (c, ss') \<Rightarrow> end_pass srv c ss'))"

text \<open>
  \<^verbatim>\<open>VncServer::ClientHandler\<close>, cut at its blocking calls. A step runs the handler from
  where it stands: up to the next \<^verbatim>\<open>recv\<close> in the handshakes, and through a whole pass
  of the main loop unless a \<^verbatim>\<open>recv\<close> of that pass finds nothing. A handler whose
  \<^verbatim>\<open>recv\<close> finds nothing stays where it is. \<^verbatim>\<open>HandshakeRFB\<close> gets the width and height
  of the moment it is called.
\<close>

definition ClientHandler_step ::
    "(string \<Rightarrow> string) \<Rightarrow> server \<Rightarrow> worker \<Rightarrow> fault + (server \<times> worker)" where
  "ClientHandler_step crypt srv k =
     (let ss = w_session k in
      case w_phase k of
        Spawned \<Rightarrow>
          Inr (srv\<lparr>activeClients := activeClients srv + 1\<rparr>, k\<lparr>w_phase := WsHandshake\<rparr>)
      | WsHandshake \<Rightarrow>
          (case HandshakeWebSocket crypt (sock ss) of
             Inl e \<Rightarrow> if e = WouldBlock then Inr (srv, k) else Inl e
           | Inr (ok, s') \<Rightarrow>
               if \<not> ok then Inr (leave srv (ss\<lparr>sock := s'\<rparr>))
               else Inr (srv\<lparr>captureRunning := True\<rparr>,
                         \<lparr> w_phase = RfbHandshake, w_session = ss\<lparr>sock := s'\<rparr> \<rparr>))
      | RfbHandshake \<Rightarrow>
          Inr (srv, \<lparr> w_phase = RfbClientVersion (width srv) (height srv),
                      w_session = ss\<lparr>sock := send (sock ss) RFB_version\<rparr> \<rparr>)
      | RfbClientVersion wd ht \<Rightarrow>
          (case HandshakeRFB_recv_version (sock ss) of
             Inl e \<Rightarrow> if e = WouldBlock then Inr (srv, k) else Inl e
           | Inr s' \<Rightarrow>
               Inr (srv, \<lparr> w_phase = RfbClientInit wd ht, w_session = ss\<lparr>sock := s'\<rparr> \<rparr>))
      | RfbClientInit wd ht \<Rightarrow>
          (case HandshakeRFB_recv_init (sock ss) wd ht ''NodeVNC'' of
             Inl e \<Rightarrow> if e = WouldBlock then Inr (srv, k) else Inl e
           | Inr (ok, s') \<Rightarrow>
               if \<not> ok then Inr (leave srv (ss\<lparr>sock := s'\<rparr>))
               else Inr (srv,
                         \<lparr> w_phase = Streaming,
                           w_session = ss\<lparr>sock := s', lastFrameSeen := 0,
                                          updateRequested := True\<rparr> \<rparr>))
      | Streaming \<Rightarrow>
          if \<not> running srv then Inr (leave srv ss)
          else if \<not> 0 < length (rx (sock ss)) then end_pass srv True ss
          else
            (case recv (sock ss) 1 of
               Inl e \<Rightarrow> Inl e
             | Inr (d, s1) \<Rightarrow>
                 if length d \<le> 0 then Inr (leave srv (ss\<lparr>sock := s1\<rparr>))
                 else switch_step srv (ss\<lparr>sock := s1\<rparr>) (hd d))
      | InSwitch msgType \<Rightarrow> switch_step srv ss msgType
      | InEncodings n \<Rightarrow> encodings_step srv ss n
      | Exited \<Rightarrow> Inr (srv, k))"

text \<open>
  The capture thread: not there, created by a handler and about to run
  \<^verbatim>\<open>InitializeDXGI\<close>, or in its loop.
\<close>

datatype capture = NoCapture | CaptureStarting | CaptureLooping

text \<open>
  The server with its threads. An event is a call of \<^verbatim>\<open>start\<close> or \<^verbatim>\<open>stop\<close>, a
  connection accepted by \<^verbatim>\<open>NetworkLoop\<close>, a step of the handler with the given index,
  bytes arriving from or a close by that handler's peer, the capture thread's
  \<^verbatim>\<open>InitializeDXGI\<close> with the display mode the duplication interface reports, or a
  pass of the capture loop with the frame it is handed.
\<close>

record world =
  the_server :: server
  workers :: "worker list"
  capture_thread :: capture

datatype event =
    Start
  | Stop
  | Accept
  | Run nat
  | Arrive nat "byte list"
  | PeerClose nat
  | DxgiInit int int
  | Capture "dxgi_frame option"

definition new_worker :: worker where
  "new_worker =
     \<lparr> w_phase = Spawned,
       w_session = \<lparr> sock = \<lparr> rx = [], peer_closed = False, tx = [], sock_closed = False \<rparr>,
                     lastFrameSeen = 0, updateRequested = True, posted = [] \<rparr> \<rparr>"

definition on_sock :: "(sock \<Rightarrow> sock) \<Rightarrow> worker \<Rightarrow> worker" where
  "on_sock f k = k\<lparr>w_session := (w_session k)\<lparr>sock := f (sock (w_session k))\<rparr>\<rparr>"

text \<open>
  One event. The handler that sets \<^verbatim>\<open>captureRunning\<close> creates the capture thread; the
  capture thread leaves its loop, and ends, when it finds \<^verbatim>\<open>running\<close> or
  \<^verbatim>\<open>captureRunning\<close> false. A fault with no defined result ends the run.
\<close>

definition step :: "(string \<Rightarrow> string) \<Rightarrow> world \<Rightarrow> event \<Rightarrow> fault + world" where
  "step crypt wl ev =
     (let srv = the_server wl; ks = workers wl in
      case ev of
        Start \<Rightarrow> Inr (wl\<lparr>the_server := srv\<lparr>running := True\<rparr>\<rparr>)
      | Stop \<Rightarrow> Inr (wl\<lparr>the_server := srv\<lparr>running := False, captureRunning := False\<rparr>\<rparr>)
      | Accept \<Rightarrow> if running srv then Inr (wl\<lparr>workers := ks @ [new_worker]\<rparr>) else Inr wl
      | Run i \<Rightarrow>
          if length ks \<le> i then Inr wl
          else
            (case ClientHandler_step crypt srv (ks ! i) of
               Inl e \<Rightarrow> Inl e
             | Inr (srv', k') \<Rightarrow>
                 Inr \<lparr> the_server = srv', workers = ks[i := k'],
                       capture_thread =
                         (if \<not> captureRunning srv \<and> captureRunning srv' then CaptureStarting
                          else capture_thread wl) \<rparr>)
      | Arrive i bs \<Rightarrow>
          if length ks \<le> i then Inr wl
          else Inr (wl\<lparr>workers := ks[i := on_sock (\<lambda>s. s\<lparr>rx := rx s @ bs\<rparr>) (ks ! i)]\<rparr>)
      | PeerClose i \<Rightarrow>
          if length ks \<le> i then Inr wl
          else Inr (wl\<lparr>workers := ks[i := on_sock (\<lambda>s. s\<lparr>peer_closed := True\<rparr>) (ks ! i)]\<rparr>)
      | DxgiInit mode_w mode_h \<Rightarrow>
          if capture_thread wl = CaptureStarting
          then Inr (wl\<lparr>the_server := InitializeDXGI srv mode_w mode_h,
                       capture_thread := CaptureLooping\<rparr>)
          else Inr wl
      | Capture frame \<Rightarrow>
          if capture_thread wl \<noteq> CaptureLooping then Inr wl
          else if \<not> (running srv \<and> captureRunning srv)
            then Inr (wl\<lparr>capture_thread := NoCapture\<rparr>)
          else
            (case CaptureLoop_iter srv frame of
               Inl e \<Rightarrow> Inl e
             | Inr srv' \<Rightarrow> Inr (wl\<lparr>the_server := srv'\<rparr>)))"

fun run :: "(string \<Rightarrow> string) \<Rightarrow> world \<Rightarrow> event list \<Rightarrow> fault + world" where
  "run crypt wl [] = Inr wl"
| "run crypt wl (ev # evs) =
     (case step crypt wl ev of Inl e \<Rightarrow> Inl e | Inr wl' \<Rightarrow> run crypt wl' evs)"

text \<open>The workers that have incremented \<^verbatim>\<open>activeClients\<close> and not yet decremented it.\<close>

definition counted :: "worker \<Rightarrow> bool" where
  "counted k = (w_phase k \<noteq> Spawned \<and> w_phase k \<noteq> Exited)"

text \<open>The workers that have completed the RFB handshake and not yet returned.\<close>

definition in_main_loop :: "worker \<Rightarrow> bool" where
  "in_main_loop k =
     (case w_phase k of
        Streaming \<Rightarrow> True | InSwitch t \<Rightarrow> True | InEncodings n \<Rightarrow> True | _ \<Rightarrow> False)"

text \<open>The counter less the number of such workers: no step of the system changes it.\<close>

definition clients_balance :: "world \<Rightarrow> int" where
  "clients_balance wl =
     activeClients (the_server wl) - int (length (filter counted (workers wl)))"

section \<open>The bytes of an update, and when the framebuffer reads stay in range\<close>

text \<open>
  The bytes that \<^verbatim>\<open>SendFrameUpdate\<close> hands to \<^verbatim>\<open>send\<close> for a non-empty rectangle list
  whose rows all lie inside the buffer, put together as one string.
\<close>

definition row_slice :: "Rect \<Rightarrow> byte list \<Rightarrow> int \<Rightarrow> int \<Rightarrow> byte list" where
  "row_slice r fb fbW yy =
     take (nat (rect_w r * 4)) (drop (nat (((rect_y r + yy) * fbW + rect_x r) * 4)) fb)"

definition rect_bytes :: "byte list \<Rightarrow> int \<Rightarrow> Rect \<Rightarrow> byte list" where
  "rect_bytes fb fbW r =
     rect_header r @ concat (map (row_slice r fb fbW) (map int [0 ..< nat (rect_h r)]))"

definition update_bytes :: "Rect list \<Rightarrow> byte list \<Rightarrow> int \<Rightarrow> byte list" where
  "update_bytes rects fb fbW = update_header rects @ concat (map (rect_bytes fb fbW) rects)"

definition rect_in_fb :: "int \<Rightarrow> int \<Rightarrow> Rect \<Rightarrow> bool" where
  "rect_in_fb fbW fbH r =
     (0 \<le> rect_x r \<and> 0 \<le> rect_y r \<and> 0 \<le> rect_w r \<and> 0 \<le> rect_h r
      \<and> rect_x r + rect_w r \<le> fbW \<and> rect_y r + rect_h r \<le> fbH)"

text \<open>
  The store as the capture loop leaves it when the duplication interface reports
  rectangles inside the display: the buffer has \<open>width * height * 4\<close> bytes, every
  recorded rectangle lies inside the surface, and the rectangle list is empty only
  while the counter is 0.
\<close>

definition store_ok :: "server \<Rightarrow> bool" where
  "store_ok srv =
     (0 \<le> width srv \<and> 0 \<le> height srv
      \<and> int (length (serverFramebuffer srv)) = width srv * height srv * 4
      \<and> list_all (rect_in_fb (width srv) (height srv)) (currentDirtyRects srv)
      \<and> (currentDirtyRects srv = [] \<longrightarrow> frameCounter srv = 0))"

text \<open>
  A frame for which \<^verbatim>\<open>AcquireFrame\<close> collects no dirty rectangle, and a mapped texture
  that holds all \<open>width * height\<close> pixels the conversion loop reads.
\<close>

definition no_dirty_reported :: "dxgi_frame \<Rightarrow> bool" where
  "no_dirty_reported f =
     (\<not> (0 < TotalMetadataBufferSize f \<and> dirty_hr_ok f \<and> 0 < length (dirty f)))"

definition texture_fits :: "server \<Rightarrow> dxgi_frame \<Rightarrow> bool" where
  "texture_fits srv f =
     (case mapped f of
        None \<Rightarrow> True
      | Some src \<Rightarrow> nat (width srv * height srv) * 4 \<le> length src)"

text \<open>A step of a handler changes nothing of the server but the two flags it owns.\<close>

definition same_store :: "server \<Rightarrow> server \<Rightarrow> bool" where
  "same_store srv srv' =
     (\<exists>a c. srv' = srv\<lparr>activeClients := a, captureRunning := c\<rparr>)"

text \<open>
  What a handler that has entered and not left does to the server and the counter in
  one step: it stays counted, or it leaves and takes one off the counter.
\<close>

definition pass_effect :: "server \<Rightarrow> server \<Rightarrow> worker \<Rightarrow> bool" where
  "pass_effect srv srv' k' =
     (same_store srv srv'
      \<and> activeClients srv' - (if counted k' then 1 else 0) = activeClients srv - 1)"

text \<open>
  What the duplication interface is taken to deliver when the store is to stay in
  range: a display mode that is not negative and holds the recorded rectangles, and
  frames whose dirty rectangles lie inside the surface and whose texture holds all
  its pixels. \<open>run_ok\<close> says so of every event of a run, in the state it meets.
\<close>

definition frame_ok :: "server \<Rightarrow> dxgi_frame \<Rightarrow> bool" where
  "frame_ok srv f =
     (list_all (\<lambda>rc. rect_in_fb (width srv) (height srv) (rect_of_RECT rc)) (dirty f)
      \<and> texture_fits srv f)"

definition event_ok :: "world \<Rightarrow> event \<Rightarrow> bool" where
  "event_ok wl ev =
     (case ev of
        DxgiInit mode_w mode_h \<Rightarrow>
          0 \<le> mode_w \<and> 0 \<le> mode_h
          \<and> list_all (rect_in_fb mode_w mode_h) (currentDirtyRects (the_server wl))
      | Capture (Some f) \<Rightarrow> frame_ok (the_server wl) f
      | _ \<Rightarrow> True)"

fun run_ok :: "(string \<Rightarrow> string) \<Rightarrow> world \<Rightarrow> event list \<Rightarrow> bool" where
  "run_ok crypt wl [] = True"
| "run_ok crypt wl (ev # evs) =
     (event_ok wl ev
      \<and> (case step crypt wl ev of Inl e \<Rightarrow> True | Inr wl' \<Rightarrow> run_ok crypt wl' evs))"

text \<open>
  The update block as claim C5 words it, to be compared with the code's: an update (the
  bytes of the store's rectangles) is sent exactly when \<^verbatim>\<open>updateRequested\<close> is true and
  the store's counter exceeds \<^verbatim>\<open>lastFrameSeen\<close>, and then \<^verbatim>\<open>lastFrameSeen\<close> is the
  counter and \<^verbatim>\<open>updateRequested\<close> is false; otherwise nothing changes.
\<close>

definition spec_update_emission :: "server \<Rightarrow> session \<Rightarrow> session" where
  "spec_update_emission srv sm =
     (if updateRequested sm \<and> lastFrameSeen sm < frameCounter srv
      then sm\<lparr>sock := (sock sm)\<lparr>tx := tx (sock sm)
                          @ update_bytes (currentDirtyRects srv) (serverFramebuffer srv)
                              (width srv)\<rparr>,
              lastFrameSeen := frameCounter srv, updateRequested := False\<rparr>
      else sm)"

section \<open>The viewer's side\<close>

text \<open>
  The 16-byte pixel format of \<^verbatim>\<open>ServerInit\<close> as an RFB viewer reads it, and the
  decoding of one pixel under it: the bytes of the pixel make one number in the
  announced byte order, and each colour is that number shifted right by the colour's
  shift and masked with the colour's maximum. This is the viewer of spec section 3,
  not code of the server.
\<close>

record PixelFormat =
  bits_per_pixel :: nat
  depth :: nat
  big_endian :: bool
  true_colour :: bool
  red_max :: nat
  green_max :: nat
  blue_max :: nat
  red_shift :: nat
  green_shift :: nat
  blue_shift :: nat

definition be16 :: "byte \<Rightarrow> byte \<Rightarrow> nat" where
  "be16 a b = unat a * 256 + unat b"

definition PixelFormat_of :: "byte list \<Rightarrow> PixelFormat" where
  "PixelFormat_of init =
     \<lparr> bits_per_pixel = unat (init ! 4), depth = unat (init ! 5),
       big_endian = (init ! 6 \<noteq> 0), true_colour = (init ! 7 \<noteq> 0),
       red_max = be16 (init ! 8) (init ! 9),
       green_max = be16 (init ! 10) (init ! 11),
       blue_max = be16 (init ! 12) (init ! 13),
       red_shift = unat (init ! 14), green_shift = unat (init ! 15),
       blue_shift = unat (init ! 16) \<rparr>"

fun be_value :: "nat \<Rightarrow> byte list \<Rightarrow> nat" where
  "be_value acc [] = acc"
| "be_value acc (b # bs) = be_value (acc * 256 + unat b) bs"

definition pixel_value :: "PixelFormat \<Rightarrow> byte list \<Rightarrow> nat" where
  "pixel_value pf bs = be_value 0 (if big_endian pf then bs else rev bs)"

definition decode_pixel :: "PixelFormat \<Rightarrow> byte list \<Rightarrow> nat \<times> nat \<times> nat" where
  "decode_pixel pf bs =
     (let v = pixel_value pf (take (bits_per_pixel pf div 8) bs) in
      (drop_bit (red_shift pf) v AND red_max pf,
       drop_bit (green_shift pf) v AND green_max pf,
       drop_bit (blue_shift pf) v AND blue_max pf))"

text \<open>
  WebSocket framing as spec section 4.3 asks for it (RFC 6455): an unmasked binary
  frame is the byte \<open>0x82\<close> (FIN, opcode 2), the payload length in 1, 3 or 9 bytes
  with the mask bit clear, and the payload. \<open>ws_unframe\<close> takes a byte string apart
  into such frames and returns the payloads, or \<open>None\<close> when the string is not a
  sequence of them. \<open>ws_masked_frame\<close> is a viewer's masked frame for a short payload.
\<close>

definition ws_frame :: "byte list \<Rightarrow> byte list" where
  "ws_frame p =
     (let n = length p in
      if n < 126 then [0x82, of_nat n] @ p
      else if n < 65536 then [0x82, 126, of_nat (n div 256), of_nat n] @ p
      else [0x82, 127] @ map (\<lambda>i. of_nat (n div 256 ^ (7 - i))) [0 ..< 8] @ p)"

definition frame_split :: "byte list \<Rightarrow> (byte list \<times> byte list) option" where
  "frame_split bs =
     (case bs of
        b0 # b1 # rest \<Rightarrow>
          if b0 \<noteq> 0x82 \<or> 0x80 \<le> b1 then None
          else
            let hdr = (if b1 = 126 then 2 else if b1 = 127 then 8 else 0);
                n = (if hdr = 0 then unat b1 else be_value 0 (take hdr rest));
                body = drop hdr rest
            in if length rest < hdr \<or> length body < n then None
               else Some (take n body, drop n body)
      | _ \<Rightarrow> None)"

primrec unframe :: "nat \<Rightarrow> byte list \<Rightarrow> byte list list option" where
  "unframe 0 bs = (if bs = [] then Some [] else None)"
| "unframe (Suc fuel) bs =
     (if bs = [] then Some []
      else (case frame_split bs of
              None \<Rightarrow> None
            | Some (p, rest) \<Rightarrow> map_option ((#) p) (unframe fuel rest)))"

definition ws_unframe :: "byte list \<Rightarrow> byte list list option" where
  "ws_unframe bs = unframe (length bs) bs"

definition ws_masked_frame :: "byte list \<Rightarrow> byte list \<Rightarrow> byte list" where
  "ws_masked_frame key p =
     [0x82, 0x80 OR of_nat (length p)] @ key
       @ map (\<lambda>i. p ! i XOR key ! (i mod 4)) [0 ..< length p]"

section \<open>Example states\<close>

text \<open>
  A server on a display of 2 by 2 pixels with one client connected and no frame
  captured yet, a session that has just entered its main loop, and two frames of the
  duplication interface: one without dirty-rectangle metadata and one whose metadata
  names the single pixel at (1, 1). The texture holds, in B, G, R, A order, the
  colours (R, G, B) = (1, 2, 3), (10, 20, 30), (40, 50, 60) and (70, 80, 90).
\<close>

definition ex_server :: server where
  "ex_server =
     \<lparr> running = True, captureRunning = True, port = 5900, password = '''',
       activeClients = 1, width = 2, height = 2,
       serverFramebuffer = [0, 0, 0, 0, 0, 0, 0, 0, 0, 0, 0, 0, 0, 0, 0, 0],
       currentDirtyRects = [], frameCounter = 0 \<rparr>"

definition ex_sock :: sock where
  "ex_sock = \<lparr> rx = [], peer_closed = False, tx = [], sock_closed = False \<rparr>"

definition ex_session :: session where
  "ex_session =
     \<lparr> sock = ex_sock, lastFrameSeen = 0, updateRequested = True, posted = [] \<rparr>"

definition ex_texture :: "byte list" where
  "ex_texture = [3, 2, 1, 0, 30, 20, 10, 0, 60, 50, 40, 0, 90, 80, 70, 0]"

definition ex_frame_full :: dxgi_frame where
  "ex_frame_full =
     \<lparr> TotalMetadataBufferSize = 0, dirty_hr_ok = True, dirty = [],
       mapped = Some ex_texture \<rparr>"

definition ex_frame_partial :: dxgi_frame where
  "ex_frame_partial =
     \<lparr> TotalMetadataBufferSize = 16, dirty_hr_ok = True,
       dirty = [\<lparr> rc_left = 1, rc_top = 1, rc_right = 2, rc_bottom = 2 \<rparr>],
       mapped = Some ex_texture \<rparr>"

text \<open>
  The options of the repository's example script, and the server that the constructor
  makes of them.
\<close>

definition ex_options :: options where
  "ex_options = \<lparr> opt_port = Some 5902, opt_password = Some ''password'' \<rparr>"

definition ex_new_server :: server where
  "ex_new_server =
     \<lparr> running = False, captureRunning = False, port = 5902, password = ''password'',
       activeClients = 0, width = 1920, height = 1080,
       serverFramebuffer = replicate (1920 * 1080 * 4) 0,
       currentDirtyRects = [], frameCounter = 0 \<rparr>"

text \<open>
  The upgrade request of a WebSocket client with the sample key of RFC 6455, the
  value of the CryptoAPI's SHA-1 and Base64 at that key with the GUID appended, and
  the response that \<^verbatim>\<open>HandshakeWebSocket\<close> builds from it.
\<close>

definition ex_request :: string where
  "ex_request =
     ''GET / HTTP/1.1'' @ CRLF
     @ ''Host: localhost:5902'' @ CRLF
     @ ''Upgrade: websocket'' @ CRLF
     @ ''Connection: Upgrade'' @ CRLF
     @ ''Sec-WebSocket-Key: dGhlIHNhbXBsZSBub25jZQ=='' @ CRLF
     @ ''Sec-WebSocket-Version: 13'' @ CRLF @ CRLF"

definition ex_crypt :: "string \<Rightarrow> string" where
  "ex_crypt input =
     (if input = ''dGhlIHNhbXBsZSBub25jZQ==258EAFA5-E914-47DA-95CA-C5AB0DC85B11''
      then ''s3pPLMBiTxaQ9kYGzzhZRbK+xOo='' else '''')"

definition ex_response :: string where
  "ex_response =
     ''HTTP/1.1 101 Switching Protocols'' @ CRLF
     @ ''Upgrade: websocket'' @ CRLF
     @ ''Connection: Upgrade'' @ CRLF
     @ ''Sec-WebSocket-Accept: s3pPLMBiTxaQ9kYGzzhZRbK+xOo='' @ CRLF @ CRLF"

text \<open>The world of the constructed example server, before \<^verbatim>\<open>start\<close>.\<close>

definition ex_world :: world where
  "ex_world = \<lparr> the_server = ex_new_server, workers = [], capture_thread = NoCapture \<rparr>"

text \<open>The example server after the commit of the frame without metadata.\<close>

definition ex_committed :: server where
  "ex_committed =
     \<lparr> running = True, captureRunning = True, port = 5900, password = '''',
       activeClients = 1, width = 2, height = 2,
       serverFramebuffer =
         [1, 2, 3, 255, 10, 20, 30, 255, 40, 50, 60, 255, 70, 80, 90, 255],
       currentDirtyRects = [\<lparr>rect_x = 0, rect_y = 0, rect_w = 2, rect_h = 2\<rparr>],
       frameCounter = 1 \<rparr>"

section \<open>Sending an update: the reads stay in range and the bytes are known\<close>

lemma send_send: "send (send s a) b = send s (a @ b)"
  by (simp add: send_def)

lemma send_Nil: "send s [] = s"
  by (simp add: send_def)

lemma row_in_range:
  assumes r: "rect_in_fb fbW fbH r" and len: "int (length fb) = fbW * fbH * 4"
    and yy: "0 \<le> yy" "yy < rect_h r"
  shows "0 \<le> ((rect_y r + yy) * fbW + rect_x r) * 4"
    and "((rect_y r + yy) * fbW + rect_x r) * 4 + rect_w r * 4 \<le> int (length fb)"
proof -
  from r have b: "0 \<le> rect_x r" "0 \<le> rect_y r" "0 \<le> rect_w r"
      "rect_x r + rect_w r \<le> fbW" "rect_y r + rect_h r \<le> fbH"
    by (simp_all add: rect_in_fb_def)
  from b have W: "0 \<le> fbW" by linarith
  from b yy have row: "rect_y r + yy + 1 \<le> fbH" "0 \<le> rect_y r + yy" by linarith+
  from row(2) W have "0 \<le> (rect_y r + yy) * fbW" by simp
  with b show "0 \<le> ((rect_y r + yy) * fbW + rect_x r) * 4" by simp
  from row(1) W have "(rect_y r + yy + 1) * fbW \<le> fbH * fbW"
    by (rule mult_right_mono)
  then have "(rect_y r + yy) * fbW + fbW \<le> fbW * fbH"
    by (simp add: algebra_simps)
  with b len show "((rect_y r + yy) * fbW + rect_x r) * 4 + rect_w r * 4 \<le> int (length fb)"
    by simp
qed

lemma row_bytes_ok:
  assumes "rect_in_fb fbW fbH r" "int (length fb) = fbW * fbH * 4" "0 \<le> yy" "yy < rect_h r"
  shows "row_bytes r fb fbW yy = Inr (row_slice r fb fbW yy)"
  using row_in_range [OF assms]
  by (simp add: row_bytes_def row_slice_def Let_def)

lemma send_rows_ok:
  assumes "rect_in_fb fbW fbH r" "int (length fb) = fbW * fbH * 4"
  shows "(\<forall>yy \<in> set ys. 0 \<le> yy \<and> yy < rect_h r) \<Longrightarrow>
     send_rows s r fb fbW ys = Inr (send s (concat (map (row_slice r fb fbW) ys)))"
proof (induction ys arbitrary: s)
  case Nil
  show ?case by (simp add: send_Nil)
next
  case (Cons yy ys)
  then have "row_bytes r fb fbW yy = Inr (row_slice r fb fbW yy)"
    using row_bytes_ok [OF assms] by simp
  with Cons show ?case by (simp add: send_send)
qed

lemma send_rects_ok:
  assumes "int (length fb) = fbW * fbH * 4"
  shows "list_all (rect_in_fb fbW fbH) rects \<Longrightarrow>
     send_rects s rects fb fbW = Inr (send s (concat (map (rect_bytes fb fbW) rects)))"
proof (induction rects arbitrary: s)
  case Nil
  show ?case by (simp add: send_Nil)
next
  case (Cons r rs)
  then have r: "rect_in_fb fbW fbH r" by simp
  have "send_rows (send s (rect_header r)) r fb fbW (map int [0 ..< nat (rect_h r)])
      = Inr (send (send s (rect_header r))
               (concat (map (row_slice r fb fbW) (map int [0 ..< nat (rect_h r)]))))"
    by (rule send_rows_ok [OF r assms]) auto
  with Cons show ?case by (simp add: send_send rect_bytes_def)
qed

lemma SendFrameUpdate_ok:
  assumes "int (length fb) = fbW * fbH * 4" "list_all (rect_in_fb fbW fbH) rects" "rects \<noteq> []"
  shows "SendFrameUpdate s rects fb fbW fbH = Inr (send s (update_bytes rects fb fbW))"
  using assms(3) send_rects_ok [OF assms(1) assms(2), of "send s (update_header rects)"]
  by (simp add: SendFrameUpdate_def send_send update_bytes_def)

lemma emit_update_ok:
  assumes ok: "store_ok srv"
  shows "emit_update srv ss =
     Inr (if updateRequested ss \<and> lastFrameSeen ss < frameCounter srv
          then ss\<lparr>sock := send (sock ss)
                    (update_bytes (currentDirtyRects srv) (serverFramebuffer srv) (width srv)),
                  lastFrameSeen := frameCounter srv, updateRequested := False\<rparr>
          else ss)"
proof (cases "updateRequested ss \<and> lastFrameSeen ss < frameCounter srv")
  case True
  then have "frameCounter srv \<noteq> 0" by auto
  with ok have ne: "currentDirtyRects srv \<noteq> []" by (auto simp: store_ok_def)
  from ok have "SendFrameUpdate (sock ss) (currentDirtyRects srv) (serverFramebuffer srv)
      (width srv) (height srv)
    = Inr (send (sock ss)
        (update_bytes (currentDirtyRects srv) (serverFramebuffer srv) (width srv)))"
    by (intro SendFrameUpdate_ok ne) (simp_all add: store_ok_def)
  with True show ?thesis by (simp add: emit_update_def)
next
  case False
  then show ?thesis by (auto simp add: emit_update_def)
qed

lemma update_header_single: "update_header [r] = [0, 0, 0, 1]"
  by (simp add: update_header_def)

lemma update_bytes_not_empty: "update_bytes rects fb fbW \<noteq> []"
  by (simp add: update_bytes_def update_header_def Let_def)

lemma emit_update_spec:
  "store_ok srv \<Longrightarrow> emit_update srv sm = Inr (spec_update_emission srv sm)"
  by (simp add: emit_update_ok spec_update_emission_def send_def)

lemma row_slice_pixel:
  assumes r: "rect_in_fb fbW fbH r" and len: "int (length fb) = fbW * fbH * 4"
    and px: "rect_x r \<le> px" "px < rect_x r + rect_w r"
    and py: "rect_y r \<le> py" "py < rect_y r + rect_h r"
  shows "take 4 (drop (nat ((px - rect_x r) * 4)) (row_slice r fb fbW (py - rect_y r)))
       = take 4 (drop (nat (py * fbW + px) * 4) fb)"
proof -
  from r have b: "0 \<le> rect_x r" "0 \<le> rect_y r" "0 \<le> rect_w r"
      "rect_x r + rect_w r \<le> fbW" "rect_y r + rect_h r \<le> fbH"
    by (simp_all add: rect_in_fb_def)
  from b px have W: "0 \<le> fbW" by linarith
  from b py have "0 \<le> py" by linarith
  with W have row: "0 \<le> py * fbW" by simp
  let ?start = "nat ((py * fbW + rect_x r) * 4)"
  let ?off = "nat ((px - rect_x r) * 4)"
  let ?n = "nat (rect_w r * 4)"
  have slice: "row_slice r fb fbW (py - rect_y r) = take ?n (drop ?start fb)"
    by (simp add: row_slice_def)
  have "take 4 (drop ?off (take ?n (drop ?start fb)))
      = take 4 (take (?n - ?off) (drop ?off (drop ?start fb)))"
    by (simp add: drop_take)
  also have "\<dots> = take 4 (drop (?off + ?start) fb)"
  proof -
    from px b have "?off + 4 \<le> ?n"
      by (simp add: nat_mult_distrib nat_le_iff nat_add_distrib)
    then have "min 4 (?n - ?off) = 4" by linarith
    then show ?thesis by (simp add: add.commute)
  qed
  also have "?off + ?start = nat (py * fbW + px) * 4"
    using px b row
    by (simp add: nat_mult_distrib nat_add_distrib [symmetric] algebra_simps)
  finally show ?thesis by (simp add: slice)
qed

lemma take4_drop:
  assumes "k + 4 \<le> length xs"
  shows "take 4 (drop k xs) = [xs ! k, xs ! (k + 1), xs ! (k + 2), xs ! (k + 3)]"
proof -
  have d: "drop j xs = xs ! j # drop (Suc j) xs" if "j < length xs" for j
    using that by (simp add: Cons_nth_drop_Suc)
  have "drop k xs = xs ! k # xs ! (k + 1) # xs ! (k + 2) # xs ! (k + 3) # drop (k + 4) xs"
    using assms d [of k] d [of "k + 1"] d [of "k + 2"] d [of "k + 3"]
    by (simp add: numeral_eq_Suc)
  then show ?thesis by simp
qed

section \<open>What a commit of the capture loop stores\<close>

lemma length_convert_pixel: "length (convert_pixel src i dst) = length dst"
  by (simp add: convert_pixel_def)

lemma length_fold_convert:
  "length (fold (convert_pixel src) is dst) = length dst"
  by (induction "is" arbitrary: dst) (simp_all add: length_convert_pixel)

lemma length_convert_pixels: "length (convert_pixels src dst n) = length dst"
  by (simp add: convert_pixels_def length_fold_convert)

lemma convert_pixels_Suc:
  "convert_pixels src dst (Suc n) = convert_pixel src n (convert_pixels src dst n)"
  by (simp add: convert_pixels_def)

lemma convert_pixels_nth:
  assumes "i < n" "n * 4 \<le> length dst"
  shows "convert_pixels src dst n ! (i * 4) = src ! (i * 4 + 2)
       \<and> convert_pixels src dst n ! (i * 4 + 1) = src ! (i * 4 + 1)
       \<and> convert_pixels src dst n ! (i * 4 + 2) = src ! (i * 4)
       \<and> convert_pixels src dst n ! (i * 4 + 3) = 255"
  using assms
proof (induction n)
  case 0
  then show ?case by simp
next
  case (Suc n)
  show ?case
  proof (cases "i = n")
    case True
    with Suc.prems show ?thesis
      by (simp add: convert_pixels_Suc convert_pixel_def length_convert_pixels)
  next
    case False
    with Suc.prems have "i < n" "n * 4 \<le> length dst" by simp_all
    from Suc.IH [OF this] \<open>i < n\<close> show ?thesis
      by (simp add: convert_pixels_Suc convert_pixel_def)
  qed
qed

lemma convert_pixels_pixel:
  assumes "i < n" "n * 4 \<le> length dst"
  shows "take 4 (drop (i * 4) (convert_pixels src dst n))
       = [src ! (i * 4 + 2), src ! (i * 4 + 1), src ! (i * 4), 255]"
proof -
  from assms have "i * 4 + 4 \<le> length (convert_pixels src dst n)"
    by (simp add: length_convert_pixels)
  from take4_drop [OF this] convert_pixels_nth [OF assms, of src] show ?thesis by simp
qed

lemma full_rect_in_fb:
  "0 \<le> width srv \<Longrightarrow> 0 \<le> height srv \<Longrightarrow> rect_in_fb (width srv) (height srv) (full_rect srv)"
  by (simp add: rect_in_fb_def full_rect_def)

lemma commit_store:
  assumes dims: "0 \<le> width srv" "0 \<le> height srv"
      "int (length (serverFramebuffer srv)) = width srv * height srv * 4"
    and on: "running srv" "captureRunning srv" "activeClients srv \<noteq> 0"
    and tex: "mapped f = Some src" "nat (width srv * height srv) * 4 \<le> length src"
  shows "\<exists>rs. CaptureLoop_iter srv (Some f) =
     Inr (srv\<lparr>serverFramebuffer :=
                convert_pixels src (serverFramebuffer srv) (nat (width srv * height srv)),
              currentDirtyRects := rs, frameCounter := frameCounter srv + 1\<rparr>)"
proof -
  from dims have "0 \<le> width srv * height srv" by simp
  with dims have "nat (width srv * height srv) * 4 = length (serverFramebuffer srv)"
    by linarith
  with on tex show ?thesis
    by (auto simp add: CaptureLoop_iter_def AcquireFrame_def Let_def)
qed

lemma commit_without_dirty:
  assumes ok: "store_ok srv" and on: "running srv" "captureRunning srv" "activeClients srv \<noteq> 0"
    and nd: "no_dirty_reported f" and fits: "texture_fits srv f"
  shows "\<exists>srv'. CaptureLoop_iter srv (Some f) = Inr srv'
     \<and> currentDirtyRects srv' = [full_rect srv]
     \<and> frameCounter srv' = frameCounter srv + 1
     \<and> width srv' = width srv \<and> height srv' = height srv
     \<and> store_ok srv'"
proof (cases "mapped f")
  case None
  with ok on nd show ?thesis
    by (auto simp add: CaptureLoop_iter_def AcquireFrame_def no_dirty_reported_def full_rect_def
        store_ok_def rect_in_fb_def)
next
  case (Some src)
  from ok have len: "int (length (serverFramebuffer srv)) = width srv * height srv * 4"
    and nn: "0 \<le> width srv" "0 \<le> height srv"
    by (simp_all add: store_ok_def)
  from nn have "0 \<le> width srv * height srv" by simp
  with len have "nat (width srv * height srv) * 4 = length (serverFramebuffer srv)"
    by linarith
  with Some fits ok on nd show ?thesis
    by (auto simp add: CaptureLoop_iter_def AcquireFrame_def no_dirty_reported_def full_rect_def
        store_ok_def rect_in_fb_def texture_fits_def length_convert_pixels)
qed

section \<open>A pass of the main loop\<close>

lemma emit_blocked_at_zero: "frameCounter srv = 0 \<Longrightarrow> emit_update srv ss = Inr ss"
  by (simp add: emit_update_def)

lemma request_held_at_zero:
  assumes "frameCounter srv = 0" "rx (sock ss) = 3 # body" "body \<noteq> []"
  shows "client_iter srv ss =
     Inr (True, ss\<lparr>sock := (sock ss)\<lparr>rx := drop 9 body\<rparr>, updateRequested := True\<rparr>)"
  using assms
  by (simp add: client_iter_def read_message_def recv_discard_def recv_def emit_update_def)

text \<open>
  A pass of the main loop that completes has read at most one message, has sent nothing
  while reading, continues the loop, and ends with the update block.
\<close>

lemma recv_tx: "recv s n = Inr (buf, s') \<Longrightarrow> tx s' = tx s"
  by (auto simp add: recv_def split: if_splits)

lemma recv_discard_tx:
  "recv_discard ss s n = Inr (c, ss') \<Longrightarrow> c \<and> tx (sock ss') = tx s"
  by (auto simp add: recv_discard_def split: sum.splits dest: recv_tx)

lemma read_message_tx:
  assumes "read_message ss = Inr (c, ss')" "rx (sock ss) \<noteq> []"
  shows "c \<and> tx (sock ss') = tx (sock ss)"
proof -
  from assms(2) obtain s1 where 1: "recv (sock ss) 1 = Inr (take 1 (rx (sock ss)), s1)"
      and t1: "tx s1 = tx (sock ss)"
    by (simp add: recv_def)
  from assms(2) have ne: "\<not> length (take 1 (rx (sock ss))) \<le> 0"
    by (cases "rx (sock ss)") simp_all
  from assms(1) 1 ne t1 show ?thesis
    by (auto simp add: read_message_def Let_def split: if_splits sum.splits
        dest!: recv_discard_tx recv_tx)
qed

lemma client_iter_pass:
  assumes "client_iter srv ss = Inr (c, ss')"
  shows "\<exists>sm. (if rx (sock ss) = [] then sm = ss else read_message ss = Inr (True, sm))
     \<and> tx (sock sm) = tx (sock ss) \<and> c \<and> emit_update srv sm = Inr ss'"
proof (cases "rx (sock ss) = []")
  case True
  with assms show ?thesis
    by (auto simp add: client_iter_def split: sum.splits)
next
  case False
  with assms obtain c1 sm where r: "read_message ss = Inr (c1, sm)"
    by (auto simp add: client_iter_def split: sum.splits)
  from read_message_tx [OF r False] have "c1" "tx (sock sm) = tx (sock ss)" by simp_all
  with assms False r show ?thesis
    by (auto simp add: client_iter_def split: sum.splits)
qed

section \<open>The handler step by step\<close>

text \<open>
  The functions of the source are their parts put together: \<^verbatim>\<open>HandshakeRFB\<close> is the
  send of the version followed by its two reading parts, and reading a message is
  reading the type byte and then the \<^verbatim>\<open>switch\<close>.
\<close>

lemma HandshakeRFB_stages:
  "HandshakeRFB s wd ht name =
     (case HandshakeRFB_recv_version (send s RFB_version) of
        Inl e \<Rightarrow> Inl e
      | Inr s1 \<Rightarrow> HandshakeRFB_recv_init s1 wd ht name)"
  by (simp add: HandshakeRFB_def HandshakeRFB_recv_version_def HandshakeRFB_recv_init_def
      split: sum.splits)

lemma recv_discard_sock: "recv_discard (ss\<lparr>sock := s0\<rparr>) s n = recv_discard ss s n"
  by (simp add: recv_discard_def split: sum.splits)

lemma read_message_switch:
  "read_message ss =
     (case recv (sock ss) 1 of
        Inl e \<Rightarrow> Inl e
      | Inr (d, s1) \<Rightarrow>
          if length d \<le> 0 then Inr (False, ss\<lparr>sock := s1\<rparr>)
          else switch_msgType (ss\<lparr>sock := s1\<rparr>) (hd d))"
  by (simp add: read_message_def switch_msgType_def recv_discard_def Let_def
      split: sum.splits)

lemma switch_step_returns:
  assumes "switch_msgType ss t = Inr (c, ss')"
  shows "switch_step srv ss t = end_pass srv c ss'"
  using assms
  by (auto simp add: switch_step_def switch_msgType_def encodings_step_def recv_discard_sock
      split: sum.splits if_splits)

text \<open>
  A step of a handler at the top of the main loop, with the server running, is a pass
  of the loop whenever the pass does not wait.
\<close>

lemma streaming_step_is_pass:
  assumes "running srv" "client_iter srv ss = Inr (c, ss')"
  shows "ClientHandler_step crypt srv \<lparr> w_phase = Streaming, w_session = ss \<rparr>
       = Inr (srv, \<lparr> w_phase = Streaming, w_session = ss' \<rparr>)"
proof (cases "rx (sock ss) = []")
  case True
  with assms show ?thesis
    by (auto simp add: ClientHandler_step_def client_iter_def end_pass_def split: sum.splits)
next
  case False
  then obtain s1 where r1: "recv (sock ss) 1 = Inr (take 1 (rx (sock ss)), s1)"
    by (simp add: recv_def)
  from False have ne: "\<not> length (take 1 (rx (sock ss))) \<le> 0"
    by (cases "rx (sock ss)") simp_all
  from assms(2) False obtain c1 sm where rm: "read_message ss = Inr (c1, sm)"
    and em: "emit_update srv sm = Inr ss'" and c1: "c1"
    using client_iter_pass [OF assms(2)] by auto
  from rm r1 ne have "switch_msgType (ss\<lparr>sock := s1\<rparr>) (hd (take 1 (rx (sock ss)))) = Inr (c1, sm)"
    by (simp add: read_message_switch)
  from switch_step_returns [OF this, of srv] em c1
  have "switch_step srv (ss\<lparr>sock := s1\<rparr>) (hd (take 1 (rx (sock ss))))
      = Inr (srv, \<lparr> w_phase = Streaming, w_session = ss' \<rparr>)"
    by (simp add: end_pass_def)
  with assms(1) False r1 ne show ?thesis
    by (simp add: ClientHandler_step_def)
qed

section \<open>What every step of the system preserves\<close>

lemma VncServer_new_Some:
  "VncServer_new (Some opts) =
     Inr \<lparr> running = False, captureRunning = False,
           port = (case opt_port opts of Some p \<Rightarrow> Int32Value p | None \<Rightarrow> 5900),
           password = (case opt_password opts of Some p \<Rightarrow> p | None \<Rightarrow> ''''),
           activeClients = 0, width = 1920, height = 1080,
           serverFramebuffer = replicate (1920 * 1080 * 4) 0,
           currentDirtyRects = [], frameCounter = 0 \<rparr>"
  by (simp add: VncServer_new_def)

lemma filter_update_count:
  assumes "i < length ks"
  shows "int (length (filter P (ks[i := k]))) =
     int (length (filter P ks)) - (if P (ks ! i) then 1 else 0) + (if P k then 1 else 0)"
proof -
  have ks: "ks = take i ks @ ks ! i # drop (Suc i) ks"
    using assms by (simp add: id_take_nth_drop)
  have upd: "ks[i := k] = take i ks @ k # drop (Suc i) ks"
    using assms by (simp add: upd_conv_take_nth_drop)
  have "length (filter P ks)
      = length (filter P (take i ks)) + (if P (ks ! i) then 1 else 0)
        + length (filter P (drop (Suc i) ks))"
    by (subst ks) simp
  moreover have "length (filter P (ks[i := k]))
      = length (filter P (take i ks)) + (if P k then 1 else 0)
        + length (filter P (drop (Suc i) ks))"
    by (simp add: upd)
  ultimately show ?thesis by simp
qed

lemma same_store_refl: "same_store srv srv"
  unfolding same_store_def
  by (rule exI [of _ "activeClients srv"], rule exI [of _ "captureRunning srv"]) simp

lemma same_store_active: "same_store srv (srv\<lparr>activeClients := a\<rparr>)"
  unfolding same_store_def
  by (rule exI [of _ a], rule exI [of _ "captureRunning srv"]) simp

lemma same_store_capture: "same_store srv (srv\<lparr>captureRunning := c\<rparr>)"
  unfolding same_store_def
  by (rule exI [of _ "activeClients srv"], rule exI [of _ c]) simp

lemma pass_effect_stay:
  "w_phase k' \<noteq> Spawned \<Longrightarrow> w_phase k' \<noteq> Exited \<Longrightarrow> pass_effect srv srv k'"
  by (simp add: pass_effect_def counted_def same_store_refl)

lemma pass_effect_leave: "leave srv ss = (srv', k') \<Longrightarrow> pass_effect srv srv' k'"
  by (auto simp add: pass_effect_def leave_def counted_def same_store_active)

lemma end_pass_effect:
  assumes "end_pass srv c ss = Inr (srv', k')"
  shows "pass_effect srv srv' k'"
proof (cases c)
  case False
  with assms show ?thesis by (simp add: end_pass_def pass_effect_leave)
next
  case True
  with assms obtain ss' where "srv' = srv" "k' = \<lparr> w_phase = Streaming, w_session = ss' \<rparr>"
    by (auto simp add: end_pass_def split: sum.splits)
  then show ?thesis by (simp add: pass_effect_stay)
qed

lemma encodings_step_effect:
  assumes "encodings_step srv ss n = Inr (srv', k')"
  shows "pass_effect srv srv' k'"
proof (cases "recv_discard ss (sock ss) (n * 4)")
  case (Inl e)
  with assms have "srv' = srv" "k' = \<lparr> w_phase = InEncodings n, w_session = ss \<rparr>"
    by (auto simp add: encodings_step_def split: if_splits)
  then show ?thesis by (simp add: pass_effect_stay)
next
  case (Inr p)
  obtain c ss' where "p = (c, ss')" by (cases p)
  with assms Inr have "end_pass srv c ss' = Inr (srv', k')"
    by (simp add: encodings_step_def)
  then show ?thesis by (rule end_pass_effect)
qed

lemma switch_step_effect:
  assumes "switch_step srv ss t = Inr (srv', k')"
  shows "pass_effect srv srv' k'"
proof (cases "t = 2")
  case True
  show ?thesis
  proof (cases "recv (sock ss) 3")
    case (Inl e)
    with assms True have "srv' = srv" "k' = \<lparr> w_phase = InSwitch t, w_session = ss \<rparr>"
      by (auto simp add: switch_step_def split: if_splits)
    then show ?thesis by (simp add: pass_effect_stay)
  next
    case (Inr p)
    obtain buf s2 where "p = (buf, s2)" by (cases p)
    with assms True Inr
    have "encodings_step srv (ss\<lparr>sock := s2\<rparr>) (unat (numEncodings_of buf)) = Inr (srv', k')"
      by (simp add: switch_step_def split: if_splits)
    then show ?thesis by (rule encodings_step_effect)
  qed
next
  case False
  show ?thesis
  proof (cases "switch_msgType ss t")
    case (Inl e)
    with assms False have "srv' = srv" "k' = \<lparr> w_phase = InSwitch t, w_session = ss \<rparr>"
      by (auto simp add: switch_step_def split: if_splits)
    then show ?thesis by (simp add: pass_effect_stay)
  next
    case (Inr p)
    obtain c ss' where "p = (c, ss')" by (cases p)
    with assms False Inr have "end_pass srv c ss' = Inr (srv', k')"
      by (simp add: switch_step_def)
    then show ?thesis by (rule end_pass_effect)
  qed
qed

lemma streaming_step_effect:
  assumes "ClientHandler_step crypt srv k = Inr (srv', k')" "w_phase k = Streaming"
  shows "pass_effect srv srv' k'"
proof -
  let ?ss = "w_session k"
  consider (stop) "\<not> running srv"
    | (idle) "running srv" "rx (sock ?ss) = []"
    | (read) "running srv" "rx (sock ?ss) \<noteq> []"
    by blast
  then show ?thesis
  proof cases
    case stop
    with assms show ?thesis
      by (simp add: ClientHandler_step_def pass_effect_leave)
  next
    case idle
    with assms have "end_pass srv True ?ss = Inr (srv', k')"
      by (simp add: ClientHandler_step_def)
    then show ?thesis by (rule end_pass_effect)
  next
    case read
    then obtain d s1 where r: "recv (sock ?ss) 1 = Inr (d, s1)"
      by (simp add: recv_def)
    show ?thesis
    proof (cases "length d \<le> 0")
      case True
      with assms read r show ?thesis
        by (simp add: ClientHandler_step_def pass_effect_leave)
    next
      case False
      with assms read r have "switch_step srv (?ss\<lparr>sock := s1\<rparr>) (hd d) = Inr (srv', k')"
        by (simp add: ClientHandler_step_def)
      then show ?thesis by (rule switch_step_effect)
    qed
  qed
qed

lemma ClientHandler_step_effect:
  assumes "ClientHandler_step crypt srv k = Inr (srv', k')"
  shows "same_store srv srv'
     \<and> activeClients srv' - (if counted k' then 1 else 0)
       = activeClients srv - (if counted k then 1 else 0)"
proof (cases "w_phase k")
  case Streaming
  with streaming_step_effect [OF assms] show ?thesis
    by (simp add: pass_effect_def counted_def)
next
  case (InSwitch t)
  with assms have "switch_step srv (w_session k) t = Inr (srv', k')"
    by (simp add: ClientHandler_step_def)
  from switch_step_effect [OF this] InSwitch show ?thesis
    by (simp add: pass_effect_def counted_def)
next
  case (InEncodings n)
  with assms have "encodings_step srv (w_session k) n = Inr (srv', k')"
    by (simp add: ClientHandler_step_def)
  from encodings_step_effect [OF this] InEncodings show ?thesis
    by (simp add: pass_effect_def counted_def)
qed (use assms in \<open>auto simp add: ClientHandler_step_def Let_def leave_def counted_def
      same_store_refl same_store_active same_store_capture split: if_splits sum.splits\<close>)

lemma AcquireFrame_activeClients:
  "AcquireFrame srv frame rs = Inr (ok, rs', srv') \<Longrightarrow> activeClients srv' = activeClients srv"
  by (auto simp add: AcquireFrame_def Let_def split: option.splits if_splits)

lemma CaptureLoop_iter_activeClients:
  "activeClients srv' = activeClients srv" if "CaptureLoop_iter srv frame = Inr srv'"
proof (cases "AcquireFrame srv frame []")
  case (Inl e)
  with that show ?thesis
    by (auto simp add: CaptureLoop_iter_def split: if_splits)
next
  case (Inr p)
  obtain ok rs srv1 where p: "p = (ok, rs, srv1)" by (cases p)
  from Inr p have "activeClients srv1 = activeClients srv"
    by (intro AcquireFrame_activeClients) simp
  with that Inr p show ?thesis
    by (auto simp add: CaptureLoop_iter_def split: if_splits)
qed

lemma step_balance:
  assumes "step crypt wl ev = Inr wl'"
  shows "clients_balance wl' = clients_balance wl"
proof (cases ev)
  case (Run i)
  show ?thesis
  proof (cases "i < length (workers wl)")
    case False
    with Run assms show ?thesis by (auto simp add: step_def Let_def)
  next
    case True
    show ?thesis
    proof (cases "ClientHandler_step crypt (the_server wl) (workers wl ! i)")
      case (Inl e)
      with Run True assms show ?thesis
        by (auto simp add: step_def Let_def)
    next
      case (Inr p)
      obtain srv' k' where p: "p = (srv', k')" by (cases p)
      from Run True Inr p assms
      have wl': "the_server wl' = srv'" "workers wl' = (workers wl)[i := k']"
        by (auto simp add: step_def Let_def)
      from Inr p have "activeClients srv' - (if counted k' then 1 else 0)
          = activeClients (the_server wl) - (if counted (workers wl ! i) then 1 else 0)"
        using ClientHandler_step_effect [of crypt "the_server wl" "workers wl ! i" srv' k']
        by simp
      with True show ?thesis
        by (simp add: clients_balance_def wl' filter_update_count)
    qed
  qed
next
  case (Arrive i bs)
  with assms show ?thesis
    by (auto simp add: step_def Let_def clients_balance_def filter_update_count on_sock_def
        counted_def split: if_splits)
next
  case (PeerClose i)
  with assms show ?thesis
    by (auto simp add: step_def Let_def clients_balance_def filter_update_count on_sock_def
        counted_def split: if_splits)
next
  case (Capture frame)
  with assms show ?thesis
    by (auto simp add: step_def Let_def clients_balance_def split: sum.splits if_splits
        dest: CaptureLoop_iter_activeClients)
next
  case Accept
  with assms show ?thesis
    by (auto simp add: step_def Let_def clients_balance_def new_worker_def counted_def
        split: if_splits)
next
  case (DxgiInit mw mh)
  with assms show ?thesis
    by (auto simp add: step_def Let_def clients_balance_def InitializeDXGI_def
        split: if_splits)
qed (use assms in \<open>auto simp add: step_def Let_def clients_balance_def\<close>)

lemma run_balance:
  "run crypt wl evs = Inr wl' \<Longrightarrow> clients_balance wl' = clients_balance wl"
proof (induction evs arbitrary: wl)
  case Nil
  then show ?case by simp
next
  case (Cons ev evs)
  then obtain wl1 where 1: "step crypt wl ev = Inr wl1" and 2: "run crypt wl1 evs = Inr wl'"
    by (auto split: sum.splits)
  from Cons.IH [OF 2] step_balance [OF 1] show ?case by simp
qed

lemma same_store_rects:
  "same_store srv srv' \<Longrightarrow>
   currentDirtyRects srv' = currentDirtyRects srv \<and> frameCounter srv' = frameCounter srv"
  by (auto simp add: same_store_def)

lemma same_store_ok: "same_store srv srv' \<Longrightarrow> store_ok srv \<Longrightarrow> store_ok srv'"
  by (auto simp add: same_store_def store_ok_def)

lemma CaptureLoop_iter_rects:
  assumes "CaptureLoop_iter srv frame = Inr srv'"
    and "currentDirtyRects srv = [] \<longrightarrow> frameCounter srv = 0"
  shows "currentDirtyRects srv' = [] \<longrightarrow> frameCounter srv' = 0"
proof (cases "AcquireFrame srv frame []")
  case (Inl e)
  with assms show ?thesis
    by (auto simp add: CaptureLoop_iter_def split: if_splits)
next
  case (Inr p)
  obtain ok rs srv1 where p: "p = (ok, rs, srv1)" by (cases p)
  from Inr p have "\<not> ok \<longrightarrow> srv1 = srv"
    by (auto simp add: AcquireFrame_def Let_def split: option.splits if_splits)
  with assms Inr p show ?thesis
    by (auto simp add: CaptureLoop_iter_def split: if_splits)
qed

lemma step_rects:
  assumes "step crypt wl ev = Inr wl'"
    and "currentDirtyRects (the_server wl) = [] \<longrightarrow> frameCounter (the_server wl) = 0"
  shows "currentDirtyRects (the_server wl') = [] \<longrightarrow> frameCounter (the_server wl') = 0"
proof (cases ev)
  case (Run i)
  show ?thesis
  proof (cases "ClientHandler_step crypt (the_server wl) (workers wl ! i)")
    case (Inl e)
    with Run assms show ?thesis
      by (auto simp add: step_def Let_def split: if_splits)
  next
    case (Inr p)
    obtain srv' k' where p: "p = (srv', k')" by (cases p)
    from Inr p have "same_store (the_server wl) srv'"
      using ClientHandler_step_effect [of crypt "the_server wl" "workers wl ! i" srv' k']
      by simp
    from same_store_rects [OF this] Run Inr p assms show ?thesis
      by (auto simp add: step_def Let_def split: if_splits)
  qed
next
  case (Capture frame)
  with assms show ?thesis
    by (auto simp add: step_def Let_def split: sum.splits if_splits
        dest: CaptureLoop_iter_rects)
next
  case (DxgiInit mw mh)
  with assms show ?thesis
    by (auto simp add: step_def Let_def InitializeDXGI_def split: if_splits)
qed (use assms in \<open>auto simp add: step_def Let_def split: if_splits\<close>)

lemma run_rects:
  "run crypt wl evs = Inr wl' \<Longrightarrow>
   (currentDirtyRects (the_server wl) = [] \<longrightarrow> frameCounter (the_server wl) = 0) \<Longrightarrow>
   (currentDirtyRects (the_server wl') = [] \<longrightarrow> frameCounter (the_server wl') = 0)"
proof (induction evs arbitrary: wl)
  case Nil
  then show ?case by simp
next
  case (Cons ev evs)
  then obtain wl1 where 1: "step crypt wl ev = Inr wl1" and 2: "run crypt wl1 evs = Inr wl'"
    by (auto split: sum.splits)
  from step_rects [OF 1 Cons.prems(2)] Cons.IH [OF 2] show ?case by simp
qed

text \<open>
  From the constructed server on, the rectangle list of the store is empty only while
  the frame counter is 0: the first commit fills it, and no commit empties it.
\<close>

lemma rects_empty_only_at_zero:
  assumes "VncServer_new (Some opts) = Inr srv"
    and "run crypt \<lparr> the_server = srv, workers = [], capture_thread = NoCapture \<rparr> evs = Inr wl"
  shows "currentDirtyRects (the_server wl) = [] \<longrightarrow> frameCounter (the_server wl) = 0"
proof -
  from assms(1) have "frameCounter srv = 0" by (auto simp add: VncServer_new_Some)
  with run_rects [OF assms(2)] show ?thesis by simp
qed

text \<open>
  The store stays in range as long as the duplication interface does: the constructed
  store is in range, and so is the store after every run whose display modes and frames
  are.
\<close>

lemma store_ok_new: "VncServer_new (Some opts) = Inr srv \<Longrightarrow> store_ok srv"
  by (auto simp add: VncServer_new_Some store_ok_def)

lemma length_resize: "length (resize v n) = n"
  by (simp add: resize_def)

lemma InitializeDXGI_store_ok:
  assumes "0 \<le> mw" "0 \<le> mh" "list_all (rect_in_fb mw mh) (currentDirtyRects srv)"
    and "currentDirtyRects srv = [] \<longrightarrow> frameCounter srv = 0"
  shows "store_ok (InitializeDXGI srv mw mh)"
  using assms by (simp add: store_ok_def InitializeDXGI_def length_resize)

lemma CaptureLoop_iter_store_ok:
  assumes ok: "store_ok srv" and f: "case frame of None \<Rightarrow> True | Some f \<Rightarrow> frame_ok srv f"
  shows "\<exists>srv'. CaptureLoop_iter srv frame = Inr srv' \<and> store_ok srv'"
proof (cases frame)
  case None
  with ok show ?thesis
    by (simp add: CaptureLoop_iter_def AcquireFrame_def)
next
  case (Some fr)
  from ok have len: "int (length (serverFramebuffer srv)) = width srv * height srv * 4"
    and nn: "0 \<le> width srv" "0 \<le> height srv"
    by (simp_all add: store_ok_def)
  from nn have "0 \<le> width srv * height srv" by simp
  with len have n: "nat (width srv * height srv) * 4 = length (serverFramebuffer srv)"
    by linarith
  from f Some have fr: "list_all (rect_in_fb (width srv) (height srv))
      (map rect_of_RECT (dirty fr))" "texture_fits srv fr"
    by (simp_all add: frame_ok_def list.pred_map comp_def)
  show ?thesis
  proof (cases "mapped fr")
    case None
    with Some ok fr show ?thesis
      by (auto simp add: CaptureLoop_iter_def AcquireFrame_def Let_def store_ok_def
          full_rect_def rect_in_fb_def)
  next
    case (Some src)
    with \<open>frame = Some fr\<close> ok fr n show ?thesis
      by (auto simp add: CaptureLoop_iter_def AcquireFrame_def Let_def store_ok_def
          full_rect_def rect_in_fb_def texture_fits_def length_convert_pixels)
  qed
qed

lemma step_store_ok:
  assumes "step crypt wl ev = Inr wl'" "event_ok wl ev" "store_ok (the_server wl)"
  shows "store_ok (the_server wl')"
proof (cases ev)
  case (Run i)
  show ?thesis
  proof (cases "ClientHandler_step crypt (the_server wl) (workers wl ! i)")
    case (Inl e)
    with Run assms show ?thesis
      by (auto simp add: step_def Let_def split: if_splits)
  next
    case (Inr p)
    obtain srv' k' where p: "p = (srv', k')" by (cases p)
    from Inr p have "same_store (the_server wl) srv'"
      using ClientHandler_step_effect [of crypt "the_server wl" "workers wl ! i" srv' k']
      by simp
    from same_store_ok [OF this assms(3)] Run Inr p assms show ?thesis
      by (auto simp add: step_def Let_def split: if_splits)
  qed
next
  case (Capture frame)
  from assms(2) Capture have "case frame of None \<Rightarrow> True | Some f \<Rightarrow> frame_ok (the_server wl) f"
    by (simp add: event_ok_def split: option.splits)
  from CaptureLoop_iter_store_ok [OF assms(3) this] Capture assms show ?thesis
    by (auto simp add: step_def Let_def split: if_splits)
next
  case (DxgiInit mw mh)
  with assms have "store_ok (InitializeDXGI (the_server wl) mw mh)"
    by (intro InitializeDXGI_store_ok) (simp_all add: event_ok_def store_ok_def)
  with DxgiInit assms show ?thesis
    by (auto simp add: step_def Let_def split: if_splits)
qed (use assms in \<open>auto simp add: step_def Let_def store_ok_def split: if_splits\<close>)

lemma run_store_ok:
  "run crypt wl evs = Inr wl' \<Longrightarrow> run_ok crypt wl evs \<Longrightarrow> store_ok (the_server wl) \<Longrightarrow>
   store_ok (the_server wl')"
proof (induction evs arbitrary: wl)
  case Nil
  then show ?case by simp
next
  case (Cons ev evs)
  then obtain wl1 where 1: "step crypt wl ev = Inr wl1" and 2: "run crypt wl1 evs = Inr wl'"
    by (auto split: sum.splits)
  from Cons.prems(2) 1 have 3: "event_ok wl ev" "run_ok crypt wl1 evs" by simp_all
  from step_store_ok [OF 1 3(1) Cons.prems(3)] Cons.IH [OF 2 3(2)] show ?case by simp
qed

lemma store_ok_reachable:
  assumes "VncServer_new (Some opts) = Inr srv"
    and "run crypt \<lparr> the_server = srv, workers = [], capture_thread = NoCapture \<rparr> evs = Inr wl"
    and "run_ok crypt \<lparr> the_server = srv, workers = [], capture_thread = NoCapture \<rparr> evs"
  shows "store_ok (the_server wl)"
  using run_store_ok [OF assms(2,3)] store_ok_new [OF assms(1)] by simp

section \<open>The examples\<close>

lemmas ex_defs = ex_server_def ex_sock_def ex_session_def ex_texture_def ex_frame_full_def
  ex_frame_partial_def ex_options_def ex_new_server_def ex_committed_def

lemma ex_upgrade:
  "HandshakeWebSocket ex_crypt
     \<lparr> rx = bytes_of ex_request, peer_closed = False, tx = [], sock_closed = False \<rparr>
   = Inr (True, \<lparr> rx = [], peer_closed = False, tx = bytes_of ex_response,
                  sock_closed = False \<rparr>)"
  by code_simp

lemma RFB_version_bytes:
  "RFB_version = [0x52, 0x46, 0x42, 0x20, 0x30, 0x30, 0x33, 0x2E, 0x30, 0x30, 0x38, 0x0A]"
  by (simp add: RFB_version_def bytes_of_def)

lemmas run_defs = ex_world_def ex_new_server_def step_def ClientHandler_step_def
  new_worker_def on_sock_def ex_upgrade send_def recv_def HandshakeRFB_recv_version_def
  HandshakeRFB_recv_init_def

section \<open>C1: pixel bytes on the wire\<close>

text \<open>
  C1, as stated, fails. On the 2 by 2 example the capture loop turns the texture
  pixel with (R, G, B) = (1, 2, 3) into the store bytes 1, 2, 3, 255, and the first
  update puts exactly these four bytes on the wire for it: red first and 255 last,
  where the claim has 3, 2, 1, 0. A viewer that decodes them under the pixel format of
  the server's own \<^verbatim>\<open>ServerInit\<close> (little-endian, shifts 16, 8, 0) gets (3, 2, 1).
\<close>

theorem C1_counterexample:
  "take 4 ex_texture = [3, 2, 1, 0]
   \<and> CaptureLoop_iter ex_server (Some ex_frame_full) =
     Inr \<lparr> running = True, captureRunning = True, port = 5900, password = '''',
           activeClients = 1, width = 2, height = 2,
           serverFramebuffer =
             [1, 2, 3, 255, 10, 20, 30, 255, 40, 50, 60, 255, 70, 80, 90, 255],
           currentDirtyRects = [\<lparr>rect_x = 0, rect_y = 0, rect_w = 2, rect_h = 2\<rparr>],
           frameCounter = 1 \<rparr>
   \<and> emit_update
         \<lparr> running = True, captureRunning = True, port = 5900, password = '''',
           activeClients = 1, width = 2, height = 2,
           serverFramebuffer =
             [1, 2, 3, 255, 10, 20, 30, 255, 40, 50, 60, 255, 70, 80, 90, 255],
           currentDirtyRects = [\<lparr>rect_x = 0, rect_y = 0, rect_w = 2, rect_h = 2\<rparr>],
           frameCounter = 1 \<rparr>
         ex_session =
     Inr \<lparr> sock = \<lparr> rx = [], peer_closed = False,
                    tx = [0, 0, 0, 1,
                          0, 0, 0, 0, 0, 2, 0, 2, 0, 0, 0, 0,
                          1, 2, 3, 255, 10, 20, 30, 255,
                          40, 50, 60, 255, 70, 80, 90, 255],
                    sock_closed = False \<rparr>,
           lastFrameSeen = 1, updateRequested = False, posted = [] \<rparr>
   \<and> decode_pixel (PixelFormat_of (ServerInit 2 2 ''NodeVNC'')) [1, 2, 3, 255] = (3, 2, 1)"
proof (intro conjI)
  show "decode_pixel (PixelFormat_of (ServerInit 2 2 ''NodeVNC'')) [1, 2, 3, 255] = (3, 2, 1)"
    by (simp add: decode_pixel_def PixelFormat_of_def ServerInit_def pixel_value_def be16_def
        hi_byte_def lo_byte_def bytes_of_def)
qed code_simp+

text \<open>
  C1, amended. Let the capture loop commit a frame whose mapped texture holds the
  pixel at column \<open>px\<close>, row \<open>py\<close> as the bytes B, G, R, A, and let \<open>r\<close> be a
  rectangle inside the surface that contains the pixel. Then \<^verbatim>\<open>SendFrameUpdate\<close> for
  \<open>r\<close> sends the message header, the rectangle header and the rows of \<open>r\<close> cut from
  the store, and the four bytes of the pixel in its row are exactly the store's
  R, G, B, 255, in that order.
\<close>

theorem C1_wire_bytes_are_store_bytes:
  assumes dims: "0 \<le> width srv" "0 \<le> height srv"
      "int (length (serverFramebuffer srv)) = width srv * height srv * 4"
    and on: "running srv" "captureRunning srv" "activeClients srv \<noteq> 0"
    and tex: "mapped f = Some src" "nat (width srv * height srv) * 4 \<le> length src"
    and r: "rect_in_fb (width srv) (height srv) r"
    and px: "rect_x r \<le> px" "px < rect_x r + rect_w r"
    and py: "rect_y r \<le> py" "py < rect_y r + rect_h r"
  shows "\<exists>srv'. CaptureLoop_iter srv (Some f) = Inr srv'
     \<and> SendFrameUpdate s [r] (serverFramebuffer srv') (width srv') (height srv')
         = Inr (send s (update_header [r] @ rect_header r
                  @ concat (map (row_slice r (serverFramebuffer srv') (width srv'))
                              (map int [0 ..< nat (rect_h r)]))))
     \<and> take 4 (drop (nat ((px - rect_x r) * 4))
                 (row_slice r (serverFramebuffer srv') (width srv') (py - rect_y r)))
         = [src ! (nat (py * width srv + px) * 4 + 2),
            src ! (nat (py * width srv + px) * 4 + 1),
            src ! (nat (py * width srv + px) * 4),
            255]"
proof -
  let ?n = "nat (width srv * height srv)"
  let ?fb = "convert_pixels src (serverFramebuffer srv) ?n"
  let ?i = "nat (py * width srv + px)"
  from commit_store [OF dims on tex] obtain rs where
    c: "CaptureLoop_iter srv (Some f) =
      Inr (srv\<lparr>serverFramebuffer := ?fb, currentDirtyRects := rs,
               frameCounter := frameCounter srv + 1\<rparr>)"
    by blast
  have len: "int (length ?fb) = width srv * height srv * 4"
    using dims by (simp add: length_convert_pixels)
  have send: "SendFrameUpdate s [r] ?fb (width srv) (height srv)
      = Inr (send s (update_bytes [r] ?fb (width srv)))"
    using r by (intro SendFrameUpdate_ok len) simp_all
  from r have b: "0 \<le> rect_x r" "0 \<le> rect_y r"
      "rect_x r + rect_w r \<le> width srv" "rect_y r + rect_h r \<le> height srv"
    by (simp_all add: rect_in_fb_def)
  have i: "?i < ?n"
  proof -
    from b px py have p: "0 \<le> px" "px < width srv" "0 \<le> py" "py + 1 \<le> height srv"
      by linarith+
    from p have "(py + 1) * width srv \<le> height srv * width srv"
      by (intro mult_right_mono) simp_all
    with p have "py * width srv + px < width srv * height srv"
      by (simp add: algebra_simps)
    moreover from p have "0 \<le> py * width srv + px" by simp
    ultimately show ?thesis by linarith
  qed
  have n4: "?n * 4 \<le> length (serverFramebuffer srv)"
    using dims by linarith
  have "take 4 (drop (nat ((px - rect_x r) * 4)) (row_slice r ?fb (width srv) (py - rect_y r)))
      = take 4 (drop (?i * 4) ?fb)"
    by (rule row_slice_pixel [OF r len px py])
  also have "\<dots> = [src ! (?i * 4 + 2), src ! (?i * 4 + 1), src ! (?i * 4), 255]"
    by (rule convert_pixels_pixel [OF i n4])
  finally show ?thesis
    using c send by (simp add: update_bytes_def rect_bytes_def)
qed

text \<open>
  The theorem at the example: the pixel at (1, 1) of the full rectangle, whose texture
  bytes are 90, 80, 70, 0.
\<close>

theorem C1_wire_bytes_are_store_bytes_witness:
  "0 \<le> width ex_server \<and> 0 \<le> height ex_server
   \<and> int (length (serverFramebuffer ex_server)) = width ex_server * height ex_server * 4
   \<and> running ex_server \<and> captureRunning ex_server \<and> activeClients ex_server \<noteq> 0
   \<and> mapped ex_frame_full = Some ex_texture
   \<and> nat (width ex_server * height ex_server) * 4 \<le> length ex_texture
   \<and> rect_in_fb (width ex_server) (height ex_server)
        \<lparr>rect_x = 0, rect_y = 0, rect_w = 2, rect_h = 2\<rparr>
   \<and> (\<exists>srv'. CaptureLoop_iter ex_server (Some ex_frame_full) = Inr srv'
        \<and> take 4 (drop 4 (row_slice \<lparr>rect_x = 0, rect_y = 0, rect_w = 2, rect_h = 2\<rparr>
                               (serverFramebuffer srv') (width srv') 1))
            = [70, 80, 90, 255])"
proof -
  let ?r = "\<lparr>rect_x = 0, rect_y = 0, rect_w = 2, rect_h = 2\<rparr>"
  have h: "0 \<le> width ex_server" "0 \<le> height ex_server"
      "int (length (serverFramebuffer ex_server)) = width ex_server * height ex_server * 4"
      "running ex_server" "captureRunning ex_server" "activeClients ex_server \<noteq> 0"
      "mapped ex_frame_full = Some ex_texture"
      "nat (width ex_server * height ex_server) * 4 \<le> length ex_texture"
      "rect_in_fb (width ex_server) (height ex_server) ?r"
    by (simp_all add: ex_defs rect_in_fb_def)
  have p: "rect_x ?r \<le> 1" "1 < rect_x ?r + rect_w ?r" "rect_y ?r \<le> 1" "1 < rect_y ?r + rect_h ?r"
    by simp_all
  from C1_wire_bytes_are_store_bytes [OF h p, of ex_sock]
  have "\<exists>srv'. CaptureLoop_iter ex_server (Some ex_frame_full) = Inr srv'
        \<and> take 4 (drop 4 (row_slice ?r (serverFramebuffer srv') (width srv') 1))
            = [70, 80, 90, 255]"
    by (auto simp add: ex_server_def ex_texture_def)
  with h show ?thesis by blast
qed

section \<open>C2: no WebSocket framing after the upgrade\<close>

text \<open>
  C2. A WebSocket client connects and sends its upgrade request. The handler answers
  \<open>101 Switching Protocols\<close>, and the next bytes it hands to the socket are the twelve
  bytes of the RFB version string as they are: no sequence of WebSocket binary frames
  (the framed version string would be one). And in the main loop a masked binary frame
  that carries the FramebufferUpdateRequest \<open>03 00 00 00 00 00 00 02 00 02\<close> is read
  as a message of type \<open>0x82\<close> and dropped, so that \<^verbatim>\<open>updateRequested\<close> stays false.
  The claim has every RFB byte in an unmasked binary frame and every inbound frame
  unmasked before it is parsed.
\<close>

theorem C2_raw_rfb_after_upgrade:
  "run ex_crypt ex_world [Start, Accept, Run 0, Arrive 0 (bytes_of ex_request), Run 0, Run 0]
   = Inr \<lparr> the_server = ex_new_server\<lparr>running := True, captureRunning := True,
                                       activeClients := 1\<rparr>,
          workers =
            [\<lparr> w_phase = RfbClientVersion 1920 1080,
               w_session =
                 \<lparr> sock = \<lparr> rx = [], peer_closed = False,
                            tx = bytes_of ex_response @ RFB_version, sock_closed = False \<rparr>,
                   lastFrameSeen = 0, updateRequested = True, posted = [] \<rparr> \<rparr>],
          capture_thread = CaptureStarting \<rparr>
   \<and> RFB_version = [0x52, 0x46, 0x42, 0x20, 0x30, 0x30, 0x33, 0x2E, 0x30, 0x30, 0x38, 0x0A]
   \<and> ws_unframe RFB_version = None
   \<and> ws_unframe (ws_frame RFB_version) = Some [RFB_version]
   \<and> ws_masked_frame [1, 2, 3, 4] [3, 0, 0, 0, 0, 0, 0, 2, 0, 2]
       = [0x82, 0x8A, 1, 2, 3, 4, 2, 2, 3, 4, 1, 2, 3, 6, 1, 0]
   \<and> client_iter ex_server
        (ex_session\<lparr>updateRequested := False,
                    sock := ex_sock\<lparr>rx := ws_masked_frame [1, 2, 3, 4]
                                              [3, 0, 0, 0, 0, 0, 0, 2, 0, 2]\<rparr>\<rparr>)
       = Inr (True, ex_session\<lparr>updateRequested := False\<rparr>)"
proof (intro conjI)
  show "run ex_crypt ex_world
      [Start, Accept, Run 0, Arrive 0 (bytes_of ex_request), Run 0, Run 0]
   = Inr \<lparr> the_server = ex_new_server\<lparr>running := True, captureRunning := True,
                                       activeClients := 1\<rparr>,
          workers =
            [\<lparr> w_phase = RfbClientVersion 1920 1080,
               w_session =
                 \<lparr> sock = \<lparr> rx = [], peer_closed = False,
                            tx = bytes_of ex_response @ RFB_version, sock_closed = False \<rparr>,
                   lastFrameSeen = 0, updateRequested = True, posted = [] \<rparr> \<rparr>],
          capture_thread = CaptureStarting \<rparr>"
    by (simp add: run_defs)
qed code_simp+

section \<open>C3: the RFB handshake\<close>

text \<open>
  C3. The spec's handshake scenario, event by event: after the upgrade the handler
  sends the version and waits; the viewer echoes it; the handler sends the security
  list \<open>01 01\<close> and waits; the viewer chooses security type 1; the handler reads that
  byte and sends \<^verbatim>\<open>ServerInit\<close> at once, and is in its main loop when the viewer's
  \<^verbatim>\<open>ClientInit\<close> byte arrives. The four bytes after \<open>01 01\<close> are \<open>07 80 04 38\<close>,
  where the claim has the \<^verbatim>\<open>SecurityResult\<close> \<open>00 00 00 00\<close>, and the \<^verbatim>\<open>ClientInit\<close>
  byte is still unread after \<^verbatim>\<open>ServerInit\<close> has been sent.
\<close>

theorem C3_no_security_result:
  "run ex_crypt ex_world
     [Start, Accept, Run 0, Arrive 0 (bytes_of ex_request), Run 0, Run 0,
      Arrive 0 RFB_version, Run 0, Arrive 0 [1], Run 0, Arrive 0 [1]]
   = Inr \<lparr> the_server = ex_new_server\<lparr>running := True, captureRunning := True,
                                       activeClients := 1\<rparr>,
          workers =
            [\<lparr> w_phase = Streaming,
               w_session =
                 \<lparr> sock = \<lparr> rx = [1], peer_closed = False,
                            tx = bytes_of ex_response @ RFB_version @ [1, 1]
                                 @ ServerInit 1920 1080 ''NodeVNC'',
                            sock_closed = False \<rparr>,
                   lastFrameSeen = 0, updateRequested = True, posted = [] \<rparr> \<rparr>],
          capture_thread = CaptureStarting \<rparr>
   \<and> ServerInit 1920 1080 ''NodeVNC''
       = [0x07, 0x80, 0x04, 0x38,
          32, 24, 0, 1, 0, 255, 0, 255, 0, 255, 16, 8, 0, 0, 0, 0,
          0, 0, 0, 7, 78, 111, 100, 101, 86, 78, 67]"
proof (intro conjI)
  show "ServerInit 1920 1080 ''NodeVNC''
       = [0x07, 0x80, 0x04, 0x38,
          32, 24, 0, 1, 0, 255, 0, 255, 0, 255, 16, 8, 0, 0, 0, 0,
          0, 0, 0, 7, 78, 111, 100, 101, 86, 78, 67]"
    by (simp add: ServerInit_def bytes_of_def hi_byte_def lo_byte_def)
  show "run ex_crypt ex_world
     [Start, Accept, Run 0, Arrive 0 (bytes_of ex_request), Run 0, Run 0,
      Arrive 0 RFB_version, Run 0, Arrive 0 [1], Run 0, Arrive 0 [1]]
   = Inr \<lparr> the_server = ex_new_server\<lparr>running := True, captureRunning := True,
                                       activeClients := 1\<rparr>,
          workers =
            [\<lparr> w_phase = Streaming,
               w_session =
                 \<lparr> sock = \<lparr> rx = [1], peer_closed = False,
                            tx = bytes_of ex_response @ RFB_version @ [1, 1]
                                 @ ServerInit 1920 1080 ''NodeVNC'',
                            sock_closed = False \<rparr>,
                   lastFrameSeen = 0, updateRequested = True, posted = [] \<rparr> \<rparr>],
          capture_thread = CaptureStarting \<rparr>"
    by (simp add: run_defs RFB_version_bytes)
qed

section \<open>C4: the first update\<close>

text \<open>
  C4, as stated, fails. On the 2 by 2 example the first frame of the duplication
  interface names the pixel at (1, 1) as dirty. The first commit makes the counter 1
  and records that rectangle alone, and the first update to the session carries the
  rectangle (1, 1, 1, 1), where the full surface would have the header
  \<open>00 00 00 00 00 02 00 02\<close>.
\<close>

theorem C4_counterexample:
  "CaptureLoop_iter ex_server (Some ex_frame_partial) =
     Inr \<lparr> running = True, captureRunning = True, port = 5900, password = '''',
           activeClients = 1, width = 2, height = 2,
           serverFramebuffer =
             [1, 2, 3, 255, 10, 20, 30, 255, 40, 50, 60, 255, 70, 80, 90, 255],
           currentDirtyRects = [\<lparr>rect_x = 1, rect_y = 1, rect_w = 1, rect_h = 1\<rparr>],
           frameCounter = 1 \<rparr>
   \<and> emit_update
         \<lparr> running = True, captureRunning = True, port = 5900, password = '''',
           activeClients = 1, width = 2, height = 2,
           serverFramebuffer =
             [1, 2, 3, 255, 10, 20, 30, 255, 40, 50, 60, 255, 70, 80, 90, 255],
           currentDirtyRects = [\<lparr>rect_x = 1, rect_y = 1, rect_w = 1, rect_h = 1\<rparr>],
           frameCounter = 1 \<rparr>
         ex_session =
     Inr \<lparr> sock = \<lparr> rx = [], peer_closed = False,
                    tx = [0, 0, 0, 1,
                          0, 1, 0, 1, 0, 1, 0, 1, 0, 0, 0, 0,
                          70, 80, 90, 255],
                    sock_closed = False \<rparr>,
           lastFrameSeen = 1, updateRequested = False, posted = [] \<rparr>
   \<and> rect_header (full_rect ex_server) = [0, 0, 0, 0, 0, 2, 0, 2, 0, 0, 0, 0]"
  by (intro conjI; code_simp)

text \<open>
  C4, amended. While the frame counter is 0 the update block of the main loop sends
  nothing and leaves the session as it is; a FramebufferUpdateRequest that arrives while
  the counter is 0 is read, leaves \<^verbatim>\<open>updateRequested\<close> set and is not answered. When
  the capture loop commits a frame for which the duplication interface reported no
  dirty rectangle, the counter goes up by one and the store records the single
  rectangle (0, 0, W, H); an update that a session with a request pending then emits
  carries exactly that one rectangle.
\<close>

theorem C4_first_update:
  "(frameCounter srv = 0 \<longrightarrow> emit_update srv ss = Inr ss)
   \<and> (frameCounter srv = 0 \<and> rx (sock ss) = 3 # body \<and> body \<noteq> [] \<longrightarrow>
        client_iter srv ss =
          Inr (True, ss\<lparr>sock := (sock ss)\<lparr>rx := drop 9 body\<rparr>, updateRequested := True\<rparr>))
   \<and> (store_ok srv \<and> running srv \<and> captureRunning srv \<and> activeClients srv \<noteq> 0
        \<and> no_dirty_reported f \<and> texture_fits srv f \<longrightarrow>
        (\<exists>srv'. CaptureLoop_iter srv (Some f) = Inr srv'
           \<and> currentDirtyRects srv' = [full_rect srv]
           \<and> frameCounter srv' = frameCounter srv + 1
           \<and> (updateRequested sn \<and> lastFrameSeen sn < frameCounter srv' \<longrightarrow>
                (\<exists>ss'. emit_update srv' sn = Inr ss'
                   \<and> tx (sock ss') = tx (sock sn) @ [0, 0, 0, 1]
                        @ rect_bytes (serverFramebuffer srv') (width srv) (full_rect srv)))))"
proof (intro conjI impI)
  assume "frameCounter srv = 0"
  then show "emit_update srv ss = Inr ss" by (rule emit_blocked_at_zero)
next
  assume "frameCounter srv = 0 \<and> rx (sock ss) = 3 # body \<and> body \<noteq> []"
  then show "client_iter srv ss =
      Inr (True, ss\<lparr>sock := (sock ss)\<lparr>rx := drop 9 body\<rparr>, updateRequested := True\<rparr>)"
    by (intro request_held_at_zero) simp_all
next
  assume a: "store_ok srv \<and> running srv \<and> captureRunning srv \<and> activeClients srv \<noteq> 0
        \<and> no_dirty_reported f \<and> texture_fits srv f"
  then obtain srv' where c: "CaptureLoop_iter srv (Some f) = Inr srv'"
      "currentDirtyRects srv' = [full_rect srv]" "frameCounter srv' = frameCounter srv + 1"
      "width srv' = width srv" "height srv' = height srv" "store_ok srv'"
    using commit_without_dirty [of srv f] by auto
  have "emit_update srv' sn = Inr ss' \<and> tx (sock ss') = tx (sock sn) @ [0, 0, 0, 1]
          @ rect_bytes (serverFramebuffer srv') (width srv) (full_rect srv)"
    if "updateRequested sn \<and> lastFrameSeen sn < frameCounter srv'"
      and "ss' = sn\<lparr>sock := send (sock sn)
                    (update_bytes (currentDirtyRects srv') (serverFramebuffer srv') (width srv')),
                  lastFrameSeen := frameCounter srv', updateRequested := False\<rparr>"
    for ss'
    using that c by (simp add: emit_update_ok [OF c(6)] update_bytes_def update_header_single
        send_def)
  with c show "\<exists>srv'. CaptureLoop_iter srv (Some f) = Inr srv'
           \<and> currentDirtyRects srv' = [full_rect srv]
           \<and> frameCounter srv' = frameCounter srv + 1
           \<and> (updateRequested sn \<and> lastFrameSeen sn < frameCounter srv' \<longrightarrow>
                (\<exists>ss'. emit_update srv' sn = Inr ss'
                   \<and> tx (sock ss') = tx (sock sn) @ [0, 0, 0, 1]
                        @ rect_bytes (serverFramebuffer srv') (width srv) (full_rect srv)))"
    by blast
qed

text \<open>
  The theorem at the example: the server before its first frame, a session with a
  request waiting, and the frame without metadata.
\<close>

theorem C4_first_update_witness:
  "frameCounter ex_server = 0
   \<and> emit_update ex_server ex_session = Inr ex_session
   \<and> client_iter ex_server (ex_session\<lparr>sock := ex_sock\<lparr>rx := [3, 0, 0, 0, 0, 0, 0, 2, 0, 2]\<rparr>\<rparr>)
       = Inr (True, ex_session)
   \<and> store_ok ex_server \<and> running ex_server \<and> captureRunning ex_server
   \<and> activeClients ex_server \<noteq> 0
   \<and> no_dirty_reported ex_frame_full \<and> texture_fits ex_server ex_frame_full
   \<and> (\<exists>srv'. CaptureLoop_iter ex_server (Some ex_frame_full) = Inr srv'
         \<and> currentDirtyRects srv' = [\<lparr>rect_x = 0, rect_y = 0, rect_w = 2, rect_h = 2\<rparr>]
         \<and> frameCounter srv' = 1
         \<and> (\<exists>ss'. emit_update srv' ex_session = Inr ss'
               \<and> take 16 (tx (sock ss')) = [0, 0, 0, 1,  0, 0, 0, 0, 0, 2, 0, 2, 0, 0, 0, 0]))"
proof -
  let ?req = "ex_session\<lparr>sock := ex_sock\<lparr>rx := [3, 0, 0, 0, 0, 0, 0, 2, 0, 2]\<rparr>\<rparr>"
  have z: "frameCounter ex_server = 0"
    by (simp add: ex_server_def)
  have r: "rx (sock ?req) = 3 # [0, 0, 0, 0, 0, 0, 2, 0, 2]"
    by simp
  have h: "store_ok ex_server" "running ex_server" "captureRunning ex_server"
      "activeClients ex_server \<noteq> 0" "no_dirty_reported ex_frame_full"
      "texture_fits ex_server ex_frame_full"
    by (simp_all add: store_ok_def ex_defs no_dirty_reported_def texture_fits_def)
  have s: "updateRequested ex_session" "lastFrameSeen ex_session = 0" "tx (sock ex_session) = []"
    by (simp_all add: ex_defs)
  have hdr: "rect_bytes fb 2 \<lparr>rect_x = 0, rect_y = 0, rect_w = 2, rect_h = 2\<rparr>
      = [0, 0, 0, 0, 0, 2, 0, 2, 0, 0, 0, 0] @ drop 12 (rect_bytes fb 2 \<lparr>rect_x = 0, rect_y = 0, rect_w = 2, rect_h = 2\<rparr>)" for fb
    by (simp add: rect_bytes_def rect_header_def hi_byte_def lo_byte_def)
  note inst = C4_first_update [where srv = ex_server and ss = ?req
      and body = "[0, 0, 0, 0, 0, 0, 2, 0, 2]" and f = ex_frame_full and sn = ex_session]
  from inst z have 1: "emit_update ex_server ?req = Inr ?req" by blast
  from inst z r have 2: "client_iter ex_server ?req = Inr (True, ex_session)"
    by (simp add: ex_defs)
  from inst h obtain srv' where c: "CaptureLoop_iter ex_server (Some ex_frame_full) = Inr srv'"
      "currentDirtyRects srv' = [full_rect ex_server]"
      "frameCounter srv' = frameCounter ex_server + 1"
      "updateRequested ex_session \<and> lastFrameSeen ex_session < frameCounter srv' \<longrightarrow>
                (\<exists>ss'. emit_update srv' ex_session = Inr ss'
                   \<and> tx (sock ss') = tx (sock ex_session) @ [0, 0, 0, 1]
                        @ rect_bytes (serverFramebuffer srv') (width ex_server)
                            (full_rect ex_server))"
    by blast
  from c(3) z have g: "frameCounter srv' = 1" by simp
  with c(4) s obtain ss' where e: "emit_update srv' ex_session = Inr ss'"
      "tx (sock ss') = [0, 0, 0, 1]
          @ rect_bytes (serverFramebuffer srv') (width ex_server) (full_rect ex_server)"
    by auto
  have f: "full_rect ex_server = \<lparr>rect_x = 0, rect_y = 0, rect_w = 2, rect_h = 2\<rparr>"
      "width ex_server = 2"
    by (simp_all add: full_rect_def ex_server_def)
  from e(2) have "take 16 (tx (sock ss')) = [0, 0, 0, 1,  0, 0, 0, 0, 0, 2, 0, 2, 0, 0, 0, 0]"
    unfolding f by (subst (asm) hdr) simp
  with c(1,2) g e(1) f(1) have 3: "\<exists>srv'. CaptureLoop_iter ex_server (Some ex_frame_full) = Inr srv'
         \<and> currentDirtyRects srv' = [\<lparr>rect_x = 0, rect_y = 0, rect_w = 2, rect_h = 2\<rparr>]
         \<and> frameCounter srv' = 1
         \<and> (\<exists>ss'. emit_update srv' ex_session = Inr ss'
               \<and> take 16 (tx (sock ss')) = [0, 0, 0, 1,  0, 0, 0, 0, 0, 2, 0, 2, 0, 0, 0, 0])"
    by auto
  have e0: "emit_update ex_server ex_session = Inr ex_session"
    using C4_first_update [where srv = ex_server and ss = ex_session] z by blast
  from z e0 2 h 3 show ?thesis by blast
qed

section \<open>C5: when an update is emitted\<close>

text \<open>
  C5, as stated, fails. The store has its first frame, the session has a request
  pending and has seen no frame, and of a client message only the type byte 3 has
  arrived. The pass reads the type byte and waits in \<^verbatim>\<open>recv\<close> for the body: both
  conditions hold, and nothing is emitted.
\<close>

theorem C5_counterexample:
  "store_ok ex_committed
   \<and> updateRequested (ex_session\<lparr>sock := ex_sock\<lparr>rx := [3]\<rparr>\<rparr>)
   \<and> lastFrameSeen (ex_session\<lparr>sock := ex_sock\<lparr>rx := [3]\<rparr>\<rparr>) < frameCounter ex_committed
   \<and> client_iter ex_committed (ex_session\<lparr>sock := ex_sock\<lparr>rx := [3]\<rparr>\<rparr>) = Inl WouldBlock
   \<and> ClientHandler_step ex_crypt ex_committed
        \<lparr> w_phase = Streaming, w_session = ex_session\<lparr>sock := ex_sock\<lparr>rx := [3]\<rparr>\<rparr> \<rparr>
       = Inr (ex_committed, \<lparr> w_phase = InSwitch 3, w_session = ex_session \<rparr>)
   \<and> tx (sock ex_session) = []"
  by (simp add: store_ok_def rect_in_fb_def ex_defs client_iter_def read_message_def
      recv_discard_def recv_def ClientHandler_step_def switch_step_def switch_msgType_def)

text \<open>
  C5, amended. On a store in range, for every pass of the main loop: with nothing to
  read the pass goes straight to the update block; with bytes to read it reads one
  message, sending nothing, and then goes to the update block, unless the read waits
  or has no defined result, and then so does the pass. The update block emits an
  update, which is never empty, exactly when \<^verbatim>\<open>updateRequested\<close> is true and the
  store's counter exceeds \<^verbatim>\<open>lastFrameSeen\<close>, both taken after the read; it then sets
  \<^verbatim>\<open>lastFrameSeen\<close> to the counter and \<^verbatim>\<open>updateRequested\<close> to false. The pass is what
  a step of the handler at the top of its loop does.
\<close>

theorem C5_pass_emission:
  assumes "store_ok srv"
  shows "(rx (sock ss) = [] \<longrightarrow>
            client_iter srv ss = Inr (True, spec_update_emission srv ss))
       \<and> (rx (sock ss) \<noteq> [] \<and> read_message ss = Inr (c, sm) \<longrightarrow>
            tx (sock sm) = tx (sock ss)
            \<and> client_iter srv ss = Inr (True, spec_update_emission srv sm))
       \<and> (rx (sock ss) \<noteq> [] \<and> read_message ss = Inl e \<longrightarrow> client_iter srv ss = Inl e)
       \<and> (running srv \<and> client_iter srv ss = Inr (c', ss') \<longrightarrow>
            ClientHandler_step crypt srv \<lparr> w_phase = Streaming, w_session = ss \<rparr>
              = Inr (srv, \<lparr> w_phase = Streaming, w_session = ss' \<rparr>))
       \<and> update_bytes (currentDirtyRects srv) (serverFramebuffer srv) (width srv) \<noteq> []"
proof (intro conjI impI)
  assume "rx (sock ss) = []"
  then show "client_iter srv ss = Inr (True, spec_update_emission srv ss)"
    by (simp add: client_iter_def emit_update_spec [OF assms])
next
  assume "rx (sock ss) \<noteq> [] \<and> read_message ss = Inr (c, sm)"
  then show "tx (sock sm) = tx (sock ss)"
    using read_message_tx [of ss c sm] by simp
next
  assume a: "rx (sock ss) \<noteq> [] \<and> read_message ss = Inr (c, sm)"
  then have "c" using read_message_tx [of ss c sm] by simp
  with a show "client_iter srv ss = Inr (True, spec_update_emission srv sm)"
    by (simp add: client_iter_def emit_update_spec [OF assms])
next
  assume "rx (sock ss) \<noteq> [] \<and> read_message ss = Inl e"
  then show "client_iter srv ss = Inl e"
    by (simp add: client_iter_def)
next
  assume "running srv \<and> client_iter srv ss = Inr (c', ss')"
  then show "ClientHandler_step crypt srv \<lparr> w_phase = Streaming, w_session = ss \<rparr>
              = Inr (srv, \<lparr> w_phase = Streaming, w_session = ss' \<rparr>)"
    by (intro streaming_step_is_pass) simp_all
next
  show "update_bytes (currentDirtyRects srv) (serverFramebuffer srv) (width srv) \<noteq> []"
    by (rule update_bytes_not_empty)
qed

text \<open>
  The theorem at the example store after its first commit: a pass with nothing to
  read, a pass that reads a whole request, and a pass that finds only the type byte.
\<close>

theorem C5_pass_emission_witness:
  "store_ok ex_committed
   \<and> rx (sock ex_session) = []
   \<and> client_iter ex_committed ex_session
       = Inr (True, ex_session\<lparr>sock := ex_sock\<lparr>tx :=
                        [0, 0, 0, 1,  0, 0, 0, 0, 0, 2, 0, 2, 0, 0, 0, 0,
                         1, 2, 3, 255, 10, 20, 30, 255, 40, 50, 60, 255, 70, 80, 90, 255]\<rparr>,
                      lastFrameSeen := 1, updateRequested := False\<rparr>)
   \<and> read_message (ex_session\<lparr>sock := ex_sock\<lparr>rx := [3, 0, 0, 0, 0, 0, 0, 2, 0, 2]\<rparr>\<rparr>)
       = Inr (True, ex_session)
   \<and> client_iter ex_committed
         (ex_session\<lparr>sock := ex_sock\<lparr>rx := [3, 0, 0, 0, 0, 0, 0, 2, 0, 2]\<rparr>\<rparr>)
       = Inr (True, ex_session\<lparr>sock := ex_sock\<lparr>tx :=
                        [0, 0, 0, 1,  0, 0, 0, 0, 0, 2, 0, 2, 0, 0, 0, 0,
                         1, 2, 3, 255, 10, 20, 30, 255, 40, 50, 60, 255, 70, 80, 90, 255]\<rparr>,
                      lastFrameSeen := 1, updateRequested := False\<rparr>)
   \<and> read_message (ex_session\<lparr>sock := ex_sock\<lparr>rx := [3]\<rparr>\<rparr>) = Inl WouldBlock
   \<and> client_iter ex_committed (ex_session\<lparr>sock := ex_sock\<lparr>rx := [3]\<rparr>\<rparr>) = Inl WouldBlock
   \<and> running ex_committed
   \<and> ClientHandler_step ex_crypt ex_committed \<lparr> w_phase = Streaming, w_session = ex_session \<rparr>
       = Inr (ex_committed,
              \<lparr> w_phase = Streaming,
                w_session = ex_session\<lparr>sock := ex_sock\<lparr>tx :=
                        [0, 0, 0, 1,  0, 0, 0, 0, 0, 2, 0, 2, 0, 0, 0, 0,
                         1, 2, 3, 255, 10, 20, 30, 255, 40, 50, 60, 255, 70, 80, 90, 255]\<rparr>,
                      lastFrameSeen := 1, updateRequested := False\<rparr> \<rparr>)"
proof -
  let ?req = "ex_session\<lparr>sock := ex_sock\<lparr>rx := [3, 0, 0, 0, 0, 0, 0, 2, 0, 2]\<rparr>\<rparr>"
  let ?part = "ex_session\<lparr>sock := ex_sock\<lparr>rx := [3]\<rparr>\<rparr>"
  let ?sent = "ex_session\<lparr>sock := ex_sock\<lparr>tx :=
                        [0, 0, 0, 1,  0, 0, 0, 0, 0, 2, 0, 2, 0, 0, 0, 0,
                         1, 2, 3, 255, 10, 20, 30, 255, 40, 50, 60, 255, 70, 80, 90, 255]\<rparr>,
                      lastFrameSeen := 1, updateRequested := False\<rparr>"
  have ok: "store_ok ex_committed"
    by (simp add: store_ok_def rect_in_fb_def ex_committed_def)
  have run: "running ex_committed"
    by (simp add: ex_committed_def)
  have "[0 ..< nat 2] = [0, 1]" by (simp add: upt_rec)
  then have spec: "spec_update_emission ex_committed ex_session = ?sent"
    by (simp add: spec_update_emission_def update_bytes_def update_header_def rect_bytes_def
        rect_header_def row_slice_def hi_byte_def lo_byte_def ex_defs)
  have idle: "rx (sock ex_session) = []"
    by (simp add: ex_defs)
  have rd: "rx (sock ?req) \<noteq> []" "read_message ?req = Inr (True, ex_session)"
    by (simp_all add: read_message_def recv_discard_def recv_def ex_defs)
  have wt: "rx (sock ?part) \<noteq> []" "read_message ?part = Inl WouldBlock"
    by (simp_all add: read_message_def recv_discard_def recv_def ex_defs)
  from C5_pass_emission [OF ok, of ex_session] idle spec
  have 1: "client_iter ex_committed ex_session = Inr (True, ?sent)" by simp
  from C5_pass_emission [OF ok, of ?req True ex_session] rd spec
  have 2: "client_iter ex_committed ?req = Inr (True, ?sent)" by simp
  from C5_pass_emission [OF ok, of ?part _ _ WouldBlock] wt
  have 3: "client_iter ex_committed ?part = Inl WouldBlock" by simp
  from C5_pass_emission [OF ok, of ex_session _ _ _ True ?sent ex_crypt] run 1
  have 4: "ClientHandler_step ex_crypt ex_committed \<lparr> w_phase = Streaming, w_session = ex_session \<rparr>
       = Inr (ex_committed, \<lparr> w_phase = Streaming, w_session = ?sent \<rparr>)"
    by simp
  from ok idle 1 rd(2) 2 wt(2) 3 run 4 show ?thesis by blast
qed

section \<open>C6: pointer events\<close>

text \<open>
  C6. One pass of the main loop over the inbound bytes \<open>05 02 01 2C 00 C8\<close> reads all
  six and posts nothing to the input sink: \<open>posted\<close> is still empty, where the claim
  has the call \<open>post_pointer(300, 200, 0x02)\<close>.
\<close>

theorem C6_pointer_event_dropped:
  "client_iter ex_server
     (ex_session\<lparr>sock := ex_sock\<lparr>rx := [0x05, 0x02, 0x01, 0x2C, 0x00, 0xC8]\<rparr>\<rparr>)
   = Inr (True, \<lparr> sock = \<lparr> rx = [], peer_closed = False, tx = [], sock_closed = False \<rparr>,
                  lastFrameSeen = 0, updateRequested = True, posted = [] \<rparr>)"
  by (simp add: client_iter_def read_message_def recv_discard_def recv_def emit_update_def
      ex_defs)

section \<open>C7: unknown message types\<close>

text \<open>
  C7, as stated, fails: after the type byte 7 the pass reads the three bytes that
  follow it, drops them, and the loop goes on (the flag is \<open>True\<close>, the socket is
  not closed).
\<close>

theorem C7_counterexample:
  "client_iter ex_server (ex_session\<lparr>sock := ex_sock\<lparr>rx := [7, 1, 2, 3]\<rparr>\<rparr>)
   = Inr (True, \<lparr> sock = \<lparr> rx = [], peer_closed = False, tx = [], sock_closed = False \<rparr>,
                  lastFrameSeen = 0, updateRequested = True, posted = [] \<rparr>)"
  by (simp add: client_iter_def read_message_def recv_discard_def recv_def emit_update_def
      ex_defs)

text \<open>
  C7, amended. For a type byte other than 0, 2, 3, 4 and 5 (6 included), followed by
  at least one byte or by the peer's close, the handler reads up to 1024 of the bytes
  that follow, drops them and stays in the main loop.
\<close>

theorem C7_unknown_type_drained:
  assumes "rx (sock ss) = t # rest" and "t \<notin> {0, 2, 3, 4, 5}"
    and "rest \<noteq> [] \<or> peer_closed (sock ss)"
  shows "read_message ss = Inr (True, ss\<lparr>sock := (sock ss)\<lparr>rx := drop 1024 rest\<rparr>\<rparr>)"
  using assms
  by (auto simp add: read_message_def recv_discard_def recv_def)

theorem C7_unknown_type_drained_witness:
  "read_message (ex_session\<lparr>sock := ex_sock\<lparr>rx := [7, 1, 2, 3]\<rparr>\<rparr>)
   = Inr (True, ex_session)"
  using C7_unknown_type_drained [of "ex_session\<lparr>sock := ex_sock\<lparr>rx := [7, 1, 2, 3]\<rparr>\<rparr>" 7 "[1, 2, 3]"]
  by (simp add: ex_defs)

section \<open>C8: pointer coordinate scaling\<close>

text \<open>
  C8. At \<open>x = 300\<close>, \<open>y = 200\<close> on the 1920 by 1080 surface \<^verbatim>\<open>SendInput\<close> posts
  \<open>dx = 300 * (65535 div 1920) = 10200\<close> and \<open>dy = 200 * (65535 div 1080) = 12000\<close>,
  where multiplying first gives \<open>300 * 65535 div 1920 = 10239\<close> and
  \<open>200 * 65535 div 1080 = 12136\<close>.
\<close>

theorem C8_scaling_divides_first:
  "map_option (\<lambda>i. (mi_dx i, mi_dy i))
      (SendInput \<lparr> running = True, captureRunning = True, port = 5900, password = '''',
                   activeClients = 1, width = 1920, height = 1080,
                   serverFramebuffer = [], currentDirtyRects = [], frameCounter = 0 \<rparr>
                 0 300 200 0 0)
     = Some (10200, 12000)
   \<and> (300 :: int) * 65535 div 1920 = 10239
   \<and> (200 :: int) * 65535 div 1080 = 12136"
  by (simp add: SendInput_def scale_coord_def c_div_def)

section \<open>C9: the client counter\<close>

text \<open>
  C9, as stated, fails. After \<^verbatim>\<open>start\<close>, one accepted connection and the first step
  of its handler, the handler stands before the WebSocket handshake and the counter is
  already 1, while no handler is in its main loop.
\<close>

theorem C9_counterexample:
  "run (\<lambda>key. key) ex_world [Start, Accept, Run 0]
   = Inr \<lparr> the_server = ex_new_server\<lparr>running := True, activeClients := 1\<rparr>,
          workers = [new_worker\<lparr>w_phase := WsHandshake\<rparr>],
          capture_thread = NoCapture \<rparr>
   \<and> activeClients (ex_new_server\<lparr>running := True, activeClients := 1\<rparr>) = 1
   \<and> length (filter in_main_loop [new_worker\<lparr>w_phase := WsHandshake\<rparr>]) = 0"
  by (simp add: ex_world_def step_def ClientHandler_step_def new_worker_def in_main_loop_def
      ex_new_server_def)

text \<open>
  C9, amended. In every state that the constructed server reaches, \<^verbatim>\<open>activeClients\<close>
  is the number of handlers that have begun to run and have not returned: those before
  or in the WebSocket handshake, in the RFB handshake or in the main loop. A handler
  whose handshake failed has returned and is not counted.
\<close>

theorem C9_counter_counts_entered_workers:
  assumes "VncServer_new (Some opts) = Inr srv"
    and "run crypt \<lparr> the_server = srv, workers = [], capture_thread = NoCapture \<rparr> evs = Inr wl"
  shows "activeClients (the_server wl) = int (length (filter counted (workers wl)))"
proof -
  from assms(1) have "activeClients srv = 0"
    by (auto simp add: VncServer_new_Some)
  with run_balance [OF assms(2)] show ?thesis
    by (simp add: clients_balance_def)
qed

text \<open>
  The theorem after \<^verbatim>\<open>start\<close>, two accepted connections and the first step of the
  second handler.
\<close>

theorem C9_counter_counts_entered_workers_witness:
  "VncServer_new (Some ex_options) = Inr ex_new_server
   \<and> run (\<lambda>key. key) \<lparr> the_server = ex_new_server, workers = [], capture_thread = NoCapture \<rparr>
        [Start, Accept, Accept, Run 1]
     = Inr \<lparr> the_server = ex_new_server\<lparr>running := True, activeClients := 1\<rparr>,
            workers = [new_worker, new_worker\<lparr>w_phase := WsHandshake\<rparr>],
            capture_thread = NoCapture \<rparr>
   \<and> (1 :: int) = int (length (filter counted [new_worker, new_worker\<lparr>w_phase := WsHandshake\<rparr>]))"
proof -
  have a: "VncServer_new (Some ex_options) = Inr ex_new_server"
    by (simp add: VncServer_new_Some Int32Value_def ex_options_def ex_new_server_def)
  have b: "run (\<lambda>key. key) \<lparr> the_server = ex_new_server, workers = [], capture_thread = NoCapture \<rparr>
        [Start, Accept, Accept, Run 1]
     = Inr \<lparr> the_server = ex_new_server\<lparr>running := True, activeClients := 1\<rparr>,
            workers = [new_worker, new_worker\<lparr>w_phase := WsHandshake\<rparr>],
            capture_thread = NoCapture \<rparr>"
    by (simp add: step_def ClientHandler_step_def new_worker_def ex_new_server_def)
  from C9_counter_counts_entered_workers [OF a b] a b show ?thesis by simp
qed

section \<open>C10: construction defaults\<close>

text \<open>
  C10. Constructed from an options object, the server always exists; its port is 5900
  when the object has no \<open>port\<close>, its password is empty when the object has no
  \<open>password\<close>; and whatever the optional fields are, \<open>running\<close> and \<open>captureRunning\<close>
  are false, \<open>activeClients\<close> is 0 and the framebuffer has \<open>1920 * 1080 * 4\<close> bytes.
\<close>

theorem C10_constructor_defaults:
  "\<exists>srv. VncServer_new (Some opts) = Inr srv
     \<and> (opt_port opts = None \<longrightarrow> port srv = 5900)
     \<and> (opt_password opts = None \<longrightarrow> password srv = '''')
     \<and> running srv = False \<and> captureRunning srv = False \<and> activeClients srv = 0
     \<and> length (serverFramebuffer srv) = 1920 * 1080 * 4"
  by (simp add: VncServer_new_Some)

theorem C10_constructor_defaults_witness:
  "\<exists>srv. VncServer_new (Some \<lparr>opt_port = None, opt_password = None\<rparr>) = Inr srv
     \<and> port srv = 5900 \<and> password srv = ''''
     \<and> running srv = False \<and> captureRunning srv = False \<and> activeClients srv = 0
     \<and> length (serverFramebuffer srv) = 1920 * 1080 * 4"
  using C10_constructor_defaults [of "\<lparr>opt_port = None, opt_password = None\<rparr>"]
  by simp

end
